theory Spec2Isabelle
  imports Main "HOL-Library.Monad_Syntax"
begin

text \<open>
  A model of \<open>app.js\<close>, the local proxy in front of the Jiutian model service, in the
  revision that adds the Ollama-compatible routes (the second of the two revisions the
  source file holds; the first lacks \<open>/api/tags\<close>, \<open>/api/generate\<close> and the second
  \<open>/api/chat\<close> and is otherwise the same).  Each handler becomes a function from what
  the request and the outside world supply to the list of calls the handler makes on
  the response and on the HTTP client.
\<close>

section \<open>JavaScript strings and JSON values\<close>

text \<open>
  A JavaScript string is a sequence of UTF-16 code units, and \<open>s.length\<close> counts code
  units, so strings are lists of code units (numbers below 65536).  \<open>asc\<close> embeds an
  ASCII literal of the source; literals outside ASCII are written by code unit.
\<close>

type_synonym jschar = nat
type_synonym jsstring = "jschar list"

definition ch :: "char \<Rightarrow> jschar" where
  "ch c = of_char c"

definition asc :: "string \<Rightarrow> jsstring" where
  "asc s = map ch s"

text \<open>
  A number is kept as the exact decimal \<open>(-1)^neg * mant * 10^expo\<close> that the program
  text or the JSON text spells; the engine holds the nearest double.
\<close>

datatype jsnum = Dec (neg: bool) (mant: nat) (expo: int)

datatype json =
    JNull
  | JBool bool
  | JNum jsnum
  | JStr jsstring
  | JArr "json list"
  | JObj "(jsstring \<times> json) list"

text \<open>A JavaScript value read from a property: \<open>None\<close> is \<open>undefined\<close>.\<close>

type_synonym jsval = "json option"

definition jnat :: "nat \<Rightarrow> json" where
  "jnat n = JNum (Dec False n 0)"

definition jint :: "int \<Rightarrow> json" where
  "jint i = JNum (Dec (i < 0) (nat \<bar>i\<bar>) 0)"

text \<open>
  An object literal of the program may hold \<open>undefined\<close> members; \<open>JSON.stringify\<close>
  (in \<open>res.json\<close>, in the frames and in the request the HTTP client sends) leaves them out.
\<close>

definition obj :: "(jsstring \<times> jsval) list \<Rightarrow> json" where
  "obj kvs = JObj (concat (map (\<lambda>(k, v). case v of None \<Rightarrow> [] | Some x \<Rightarrow> [(k, x)]) kvs))"

section \<open>JSON.parse\<close>

text \<open>
  \<open>JSON.parse\<close> is the engine's; it is modelled by the JSON grammar (ECMA-404) it
  implements: a lexer, then a pushdown recogniser over the tokens.  \<open>None\<close> is the
  \<open>SyntaxError\<close> it throws.
\<close>

datatype token = TLBrace | TRBrace | TLBrack | TRBrack | TColon | TComma | TAtom json

definition is_ws :: "jschar \<Rightarrow> bool" where
  "is_ws c \<longleftrightarrow> c = 9 \<or> c = 10 \<or> c = 13 \<or> c = 32"

definition is_digit :: "jschar \<Rightarrow> bool" where
  "is_digit c \<longleftrightarrow> 48 \<le> c \<and> c \<le> 57"

definition hex_val :: "jschar \<Rightarrow> nat option" where
  "hex_val c =
     (if 48 \<le> c \<and> c \<le> 57 then Some (c - 48)
      else if 97 \<le> c \<and> c \<le> 102 then Some (c - 87)
      else if 65 \<le> c \<and> c \<le> 70 then Some (c - 55)
      else None)"

definition unescape :: "jschar \<Rightarrow> jschar option" where
  "unescape e =
     (if e = ch CHR ''\"'' then Some 34
      else if e = ch CHR 0x5C then Some 92
      else if e = ch CHR ''/'' then Some 47
      else if e = ch CHR ''b'' then Some 8
      else if e = ch CHR ''f'' then Some 12
      else if e = ch CHR ''n'' then Some 10
      else if e = ch CHR ''r'' then Some 13
      else if e = ch CHR ''t'' then Some 9
      else None)"

definition hex4 :: "jschar \<Rightarrow> jschar \<Rightarrow> jschar \<Rightarrow> jschar \<Rightarrow> jschar option" where
  "hex4 a b c d =
     (case (hex_val a, hex_val b, hex_val c, hex_val d) of
        (Some x, Some y, Some z, Some w) \<Rightarrow> Some (4096 * x + 256 * y + 16 * z + w)
      | _ \<Rightarrow> None)"

text \<open>The characters of a string literal after its opening quote, up to the closing one.\<close>

fun lex_string :: "jsstring \<Rightarrow> jsstring \<Rightarrow> (jsstring \<times> jsstring) option" where
  "lex_string acc [] = None"
| "lex_string acc (c # cs) =
     (if c = ch CHR ''\"'' then Some (rev acc, cs)
      else if c = ch CHR 0x5C then
        (case cs of
           [] \<Rightarrow> None
         | e # es \<Rightarrow>
             if e = ch CHR ''u'' then
               (case es of
                  h1 # h2 # h3 # h4 # r \<Rightarrow>
                    (case hex4 h1 h2 h3 h4 of
                       None \<Rightarrow> None
                     | Some u \<Rightarrow> lex_string (u # acc) r)
                | _ \<Rightarrow> None)
             else
               (case unescape e of
                  None \<Rightarrow> None
                | Some x \<Rightarrow> lex_string (x # acc) es))
      else if c < 32 then None
      else lex_string (c # acc) cs)"

definition digits_val :: "jsstring \<Rightarrow> nat" where
  "digits_val ds = foldl (\<lambda>a d. 10 * a + (d - 48)) 0 ds"

text \<open>The integer part of a number: a single \<open>0\<close>, or digits led by a non-zero one.\<close>

definition int_part :: "jsstring \<Rightarrow> jsstring" where
  "int_part s =
     (case s of
        [] \<Rightarrow> []
      | c # cs \<Rightarrow> if c = 48 then [c] else takeWhile is_digit s)"

text \<open>An optional fraction \<open>.ddd\<close>: its digits (empty when absent) and the rest.\<close>

definition frac_part :: "jsstring \<Rightarrow> (jsstring \<times> jsstring) option" where
  "frac_part s =
     (case s of
        [] \<Rightarrow> Some ([], s)
      | c # cs \<Rightarrow>
          if c = ch CHR ''.'' then
            (if takeWhile is_digit cs = [] then None
             else Some (takeWhile is_digit cs, dropWhile is_digit cs))
          else Some ([], s))"

text \<open>An optional exponent \<open>e[+-]ddd\<close>: its value (0 when absent) and the rest.\<close>

definition exp_part :: "jsstring \<Rightarrow> (int \<times> jsstring) option" where
  "exp_part s =
     (case s of
        [] \<Rightarrow> Some (0, s)
      | c # cs \<Rightarrow>
          if c = ch CHR ''e'' \<or> c = ch CHR ''E'' then
            (let (sg, ds) =
                   (case cs of
                      [] \<Rightarrow> (False, cs)
                    | d # r \<Rightarrow>
                        if d = ch CHR ''+'' then (False, r)
                        else if d = ch CHR ''-'' then (True, r)
                        else (False, cs))
             in if takeWhile is_digit ds = [] then None
                else Some ((if sg then - int (digits_val (takeWhile is_digit ds))
                            else int (digits_val (takeWhile is_digit ds))),
                           dropWhile is_digit ds))
          else Some (0, s))"

definition lex_number :: "jsstring \<Rightarrow> (jsnum \<times> jsstring) option" where
  "lex_number s =
     (let (ng, s1) =
            (case s of
               [] \<Rightarrow> (False, s)
             | c # cs \<Rightarrow> if c = ch CHR ''-'' then (True, cs) else (False, s));
          ip = int_part s1
      in if ip = [] then None
         else
           (case frac_part (drop (length ip) s1) of
              None \<Rightarrow> None
            | Some (fp, s2) \<Rightarrow>
                (case exp_part s2 of
                   None \<Rightarrow> None
                 | Some (ex, s3) \<Rightarrow>
                     Some (Dec ng (digits_val (ip @ fp)) (ex - int (length fp)), s3))))"

definition cons_tok :: "token \<Rightarrow> token list option \<Rightarrow> token list option" where
  "cons_tok t r = map_option ((#) t) r"

function lex :: "jsstring \<Rightarrow> token list option" where
  "lex [] = Some []"
| "lex (c # cs) =
     (if is_ws c then lex cs
      else if c = ch CHR ''{'' then cons_tok TLBrace (lex cs)
      else if c = ch CHR ''}'' then cons_tok TRBrace (lex cs)
      else if c = ch CHR ''['' then cons_tok TLBrack (lex cs)
      else if c = ch CHR '']'' then cons_tok TRBrack (lex cs)
      else if c = ch CHR '':'' then cons_tok TColon (lex cs)
      else if c = ch CHR '','' then cons_tok TComma (lex cs)
      else if c = ch CHR ''\"'' then
        (case lex_string [] cs of
           None \<Rightarrow> None
         | Some (s, r) \<Rightarrow> cons_tok (TAtom (JStr s)) (lex r))
      else if c = ch CHR ''-'' \<or> is_digit c then
        (case lex_number (c # cs) of
           None \<Rightarrow> None
         | Some (n, r) \<Rightarrow> cons_tok (TAtom (JNum n)) (lex r))
      else if take 4 (c # cs) = asc ''true'' then cons_tok (TAtom (JBool True)) (lex (drop 3 cs))
      else if take 5 (c # cs) = asc ''false'' then cons_tok (TAtom (JBool False)) (lex (drop 4 cs))
      else if take 4 (c # cs) = asc ''null'' then cons_tok (TAtom JNull) (lex (drop 3 cs))
      else None)"
  by pat_completeness auto
termination
proof -
  have str: "length r < length s" if "lex_string acc s = Some (x, r)" for acc s x r
    using that
  proof (induction acc s rule: lex_string.induct)
    case (1 acc)
    then show ?case by simp
  next
    case (2 acc c cs)
    then show ?case
      by (auto split: if_splits list.splits option.splits) fastforce+
  qed
  have frac: "length r \<le> length s" if "frac_part s = Some (fp, r)" for s fp r
    using that
    by (auto simp: frac_part_def split: list.splits if_splits
          intro: le_SucI length_dropWhile_le)
  have expn: "length r \<le> length s" if "exp_part s = Some (ex, r)" for s ex r
    using that
    by (auto simp: exp_part_def Let_def split: list.splits if_splits prod.splits
          intro: le_SucI length_dropWhile_le order_trans [OF length_dropWhile_le])
  have ipart: "s \<noteq> [] \<and> length (int_part s) \<le> length s" if "int_part s \<noteq> []" for s
    using that
    by (auto simp: int_part_def split: list.splits if_splits
          intro: le_SucI order_trans [OF length_takeWhile_le])
  have numb: "length r < length s" if lx: "lex_number s = Some (n, r)" for s n r
  proof -
    obtain ng s1 where s1: "(ng, s1) =
        (case s of [] \<Rightarrow> (False, s)
         | c # cs \<Rightarrow> if c = ch CHR ''-'' then (True, cs) else (False, s))"
      by (metis surj_pair)
    have le1: "length s1 \<le> length s"
      using s1 by (auto split: list.splits if_splits)
    from lx s1 [symmetric] have ip: "int_part s1 \<noteq> []"
      by (auto simp: lex_number_def Let_def split: if_splits)
    from lx s1 [symmetric] ip obtain fp s2 ex where
      fp: "frac_part (drop (length (int_part s1)) s1) = Some (fp, s2)"
      and ex: "exp_part s2 = Some (ex, r)"
      by (auto simp: lex_number_def Let_def split: option.splits)
    have "length r \<le> length s2"
      using ex by (rule expn)
    also have "\<dots> \<le> length (drop (length (int_part s1)) s1)"
      using fp by (rule frac)
    also have "\<dots> < length s1"
    proof -
      have "0 < length (int_part s1)" using ip by simp
      moreover have "0 < length s1" using ipart [OF ip] by simp
      ultimately show ?thesis by simp
    qed
    finally show ?thesis
      using le1 by simp
  qed
  show ?thesis
    by (relation "measure length") (auto dest: str numb intro: le_imp_less_Suc)
qed

text \<open>The recogniser: what may come next, and the containers that are still open.\<close>

datatype pframe =
    PArr "json list"
  | PObj "(jsstring \<times> json) list"
  | PKey "(jsstring \<times> json) list" jsstring

datatype pmode =
    WantValue | WantValueOrClose | WantKeyOrClose | WantKey | WantColon
  | WantCommaOrClose | Complete json

type_synonym pstate = "pmode \<times> pframe list"

text \<open>A value is complete: it is the whole text, or goes into the innermost open container.\<close>

fun deliver :: "json \<Rightarrow> pframe list \<Rightarrow> pstate option" where
  "deliver v [] = Some (Complete v, [])"
| "deliver v (PArr xs # st) = Some (WantCommaOrClose, PArr (v # xs) # st)"
| "deliver v (PKey kvs k # st) = Some (WantCommaOrClose, PObj ((k, v) # kvs) # st)"
| "deliver v (PObj kvs # st) = None"

fun open_value :: "token \<Rightarrow> pframe list \<Rightarrow> pstate option" where
  "open_value (TAtom v) st = deliver v st"
| "open_value TLBrack st = Some (WantValueOrClose, PArr [] # st)"
| "open_value TLBrace st = Some (WantKeyOrClose, PObj [] # st)"
| "open_value _ st = None"

fun take_key :: "token \<Rightarrow> pframe list \<Rightarrow> pstate option" where
  "take_key (TAtom (JStr k)) (PObj kvs # st) = Some (WantColon, PKey kvs k # st)"
| "take_key _ _ = None"

fun close_container :: "token \<Rightarrow> pframe list \<Rightarrow> pstate option" where
  "close_container TRBrack (PArr xs # st) = deliver (JArr (rev xs)) st"
| "close_container TRBrace (PObj kvs # st) = deliver (JObj (rev kvs)) st"
| "close_container _ _ = None"

fun pstep :: "pstate \<Rightarrow> token \<Rightarrow> pstate option" where
  "pstep (WantValue, st) t = open_value t st"
| "pstep (WantValueOrClose, st) t =
     (if t = TRBrack then close_container t st else open_value t st)"
| "pstep (WantKeyOrClose, st) t =
     (if t = TRBrace then close_container t st else take_key t st)"
| "pstep (WantKey, st) t = take_key t st"
| "pstep (WantColon, st) t = (if t = TColon then Some (WantValue, st) else None)"
| "pstep (WantCommaOrClose, st) t =
     (if t = TComma then
        (case st of
           PArr xs # r \<Rightarrow> Some (WantValue, st)
         | PObj kvs # r \<Rightarrow> Some (WantKey, st)
         | _ \<Rightarrow> None)
      else close_container t st)"
| "pstep (Complete v, st) t = None"

primrec psteps :: "pstate \<Rightarrow> token list \<Rightarrow> pstate option" where
  "psteps s [] = Some s"
| "psteps s (t # ts) = (case pstep s t of None \<Rightarrow> None | Some s' \<Rightarrow> psteps s' ts)"

definition JSON_parse :: "jsstring \<Rightarrow> json option" where
  "JSON_parse s =
     (case lex s of
        None \<Rightarrow> None
      | Some ts \<Rightarrow>
          (case psteps (WantValue, []) ts of
             Some (Complete v, st) \<Rightarrow> Some v
           | _ \<Rightarrow> None))"

section \<open>The JavaScript operations the handlers use\<close>

text \<open>An \<open>Error\<close> object, as far as the handlers read it.\<close>

record js_error =
  message :: jsstring
  stack :: jsstring

text \<open>
  What the program takes from its process and from the engine, and what the upstream
  provider answers to the request at hand.  The engine's number printing and
  string-to-number conversion, the stack text of an error and the \<open>TypeError\<close> it
  raises (at most one reaches a handler's \<open>catch\<close> per request) are not fixed here:
  every result below holds whatever they are.
\<close>

datatype stream_event =
    Data jsstring jsstring jsstring
  | StreamEnd
  | StreamError js_error

text \<open>
  \<open>Data c t1 t2\<close>: the upstream response emits a chunk whose \<open>toString()\<close> is \<open>c\<close>;
  \<open>t1\<close> and \<open>t2\<close> are what \<open>new Date().toISOString()\<close> yields the first and the
  second time it is evaluated while that chunk is handled.
\<close>

record env =
  JIUTIAN_API_KEY :: "jsstring option"
  NODE_ENV :: "jsstring option"
  Date_now :: "nat \<Rightarrow> int"
  now_iso :: jsstring
  number_toString :: "jsnum \<Rightarrow> jsstring"
  string_gt_zero :: "jsstring \<Rightarrow> bool"
  error_stack :: "jsstring \<Rightarrow> jsstring"
  type_error :: js_error
  reply_json :: "js_error + json"
  reply_stream :: "js_error + stream_event list"

text \<open>
  \<open>Date_now rt n\<close> is the \<open>n\<close>-th reading of \<open>Date.now()\<close> (milliseconds) while the
  request is served, \<open>now_iso\<close> the \<open>new Date().toISOString()\<close> of a handler that
  answers in one piece.  \<open>reply_json\<close> is the outcome of \<open>await axios.post(...)\<close>:
  the rejection, or \<open>result.data\<close>; \<open>reply_stream\<close> is the outcome with
  \<open>responseType: 'stream'\<close>: the rejection, or the events \<open>response.data\<close> emits.
\<close>

definition new_Error :: "env \<Rightarrow> jsstring \<Rightarrow> js_error" where
  "new_Error rt msg = \<lparr>message = msg, stack = error_stack rt msg\<rparr>"

text \<open>The double nearest to the decimal is zero: the decimal is at most \<open>2^-1075\<close>.\<close>

definition num_is_zero :: "jsnum \<Rightarrow> bool" where
  "num_is_zero n \<longleftrightarrow>
     mant n = 0 \<or> (expo n < 0 \<and> mant n * 2 ^ 1075 \<le> 10 ^ nat (- expo n))"

fun truthy :: "jsval \<Rightarrow> bool" where
  "truthy None = False"
| "truthy (Some JNull) = False"
| "truthy (Some (JBool b)) = b"
| "truthy (Some (JNum n)) = (\<not> num_is_zero n)"
| "truthy (Some (JStr s)) = (s \<noteq> [])"
| "truthy (Some (JArr xs)) = True"
| "truthy (Some (JObj kvs)) = True"

text \<open>An own member of a parsed object; of duplicate keys \<open>JSON.parse\<close> keeps the last.\<close>

definition own :: "(jsstring \<times> json) list \<Rightarrow> jsstring \<Rightarrow> jsval" where
  "own kvs k = map_of (rev kvs) k"

text \<open>
  Reading a property: \<open>None\<close> is the \<open>TypeError\<close> of reading from \<open>undefined\<close> or
  \<open>null\<close>.  Exact for the names the program reads (\<open>choices\<close>, \<open>delta\<close>, \<open>text\<close>,
  \<open>content\<close>, \<open>message\<close>, \<open>status\<close>, \<open>temperature\<close>, \<open>top_p\<close>, \<open>length\<close>, \<open>0\<close>),
  none of which a prototype supplies.
\<close>

fun get :: "jsval \<Rightarrow> jsstring \<Rightarrow> jsval option" where
  "get None k = None"
| "get (Some JNull) k = None"
| "get (Some (JBool b)) k = Some None"
| "get (Some (JNum n)) k = Some None"
| "get (Some (JStr s)) k =
     Some (if k = asc ''length'' then Some (jnat (length s))
           else if k = asc ''0'' then (case s of [] \<Rightarrow> None | c # cs \<Rightarrow> Some (JStr [c]))
           else None)"
| "get (Some (JArr xs)) k =
     Some (if k = asc ''length'' then Some (jnat (length xs))
           else if k = asc ''0'' then (case xs of [] \<Rightarrow> None | x # r \<Rightarrow> Some x)
           else None)"
| "get (Some (JObj kvs)) k = Some (own kvs k)"

fun join_comma :: "jsstring option list \<Rightarrow> jsstring option" where
  "join_comma [] = Some []"
| "join_comma [x] = x"
| "join_comma (x # y # ys) =
     (case (x, join_comma (y # ys)) of
        (Some a, Some b) \<Rightarrow> Some (a @ asc '','' @ b)
      | _ \<Rightarrow> None)"

text \<open>
  \<open>ToString\<close> of a parsed value, as string concatenation and template literals apply
  it; \<open>None\<close> is the \<open>TypeError\<close> of an object whose own member \<open>toString\<close> hides the
  inherited method.
\<close>

fun to_string :: "env \<Rightarrow> json \<Rightarrow> jsstring option" where
  "to_string rt JNull = Some (asc ''null'')"
| "to_string rt (JBool b) = Some (if b then asc ''true'' else asc ''false'')"
| "to_string rt (JNum n) = Some (number_toString rt n)"
| "to_string rt (JStr s) = Some s"
| "to_string rt (JArr xs) =
     join_comma (map (\<lambda>x. if x = JNull then Some [] else to_string rt x) xs)"
| "to_string rt (JObj kvs) =
     (if own kvs (asc ''toString'') = None then Some (asc ''[object Object]'') else None)"

definition template_string :: "env \<Rightarrow> jsval \<Rightarrow> jsstring option" where
  "template_string rt v = (case v of None \<Rightarrow> Some (asc ''undefined'') | Some x \<Rightarrow> to_string rt x)"

text \<open>\<open>x > 0\<close>; \<open>None\<close> is the \<open>TypeError\<close> of converting the operand.\<close>

fun gt_zero :: "env \<Rightarrow> jsval \<Rightarrow> bool option" where
  "gt_zero rt None = Some False"
| "gt_zero rt (Some JNull) = Some False"
| "gt_zero rt (Some (JBool b)) = Some b"
| "gt_zero rt (Some (JNum n)) = Some (\<not> neg n \<and> \<not> num_is_zero n)"
| "gt_zero rt (Some (JStr s)) = Some (string_gt_zero rt s)"
| "gt_zero rt (Some (JArr xs)) = map_option (string_gt_zero rt) (to_string rt (JArr xs))"
| "gt_zero rt (Some (JObj kvs)) = map_option (\<lambda>s. False) (to_string rt (JObj kvs))"

text \<open>\<open>x || d\<close> and a destructuring default \<open>x = d\<close>.\<close>

definition or_else :: "jsval \<Rightarrow> json \<Rightarrow> json" where
  "or_else v d = (case v of None \<Rightarrow> d | Some x \<Rightarrow> if truthy v then x else d)"

definition default_to :: "jsval \<Rightarrow> json \<Rightarrow> json" where
  "default_to v d = (case v of None \<Rightarrow> d | Some x \<Rightarrow> x)"

definition starts_with :: "jsstring \<Rightarrow> jsstring \<Rightarrow> bool" where
  "starts_with s p \<longleftrightarrow> take (length p) s = p"

section \<open>generateToken\<close>

text \<open>\<open>function generateToken(apiKey, expSeconds = 3600)\<close>, lines 291 to 313.\<close>

text \<open>\<open>s.split(d)\<close> for a one-character separator.\<close>

fun split_on :: "jschar \<Rightarrow> jsstring \<Rightarrow> jsstring list" where
  "split_on d [] = [[]]"
| "split_on d (c # cs) =
     (if c = d then [] # split_on d cs
      else (case split_on d cs of [] \<Rightarrow> [[c]] | p # ps \<Rightarrow> (c # p) # ps))"

text \<open>
  A signed token has three parts: header, payload and a signature over both.  The
  signature is kept symbolic: the algorithm, the key and what was signed.
\<close>

datatype signature = HMAC_SHA256 jsstring "(jsstring \<times> json) list" "(jsstring \<times> json) list"

datatype jwt =
  Jwt (jwt_header: "(jsstring \<times> json) list")
      (jwt_payload: "(jsstring \<times> json) list")
      (jwt_signature: signature)

text \<open>
  \<open>jwt.sign(payload, secret, {algorithm: "HS256", header})\<close> of the jsonwebtoken
  package, for an object payload: it throws when the key is missing or empty (\<open>None\<close>);
  otherwise it puts \<open>alg\<close> and \<open>typ\<close> before the caller's header members, adds the
  claim \<open>iat\<close> from the clock and signs.
\<close>

definition jwt_sign ::
  "env \<Rightarrow> (jsstring \<times> json) list \<Rightarrow> jsstring option \<Rightarrow> (jsstring \<times> json) list \<Rightarrow> jwt option" where
  "jwt_sign rt payload secret header =
     (case secret of
        None \<Rightarrow> None
      | Some k \<Rightarrow>
          if k = [] then None
          else
            (let p = payload @ [(asc ''iat'', jint (Date_now rt 2 div 1000))]
             in Some (Jwt header p (HMAC_SHA256 k header p))))"

definition msg_invalid_key :: jsstring where
  "msg_invalid_key = [0x65e0, 0x6548, 0x7684] @ asc '' API Key''"

definition generateToken :: "env \<Rightarrow> jsstring option \<Rightarrow> int \<Rightarrow> js_error + jwt" where
  "generateToken rt apiKey expSeconds =
     (case
        (case apiKey of
           None \<Rightarrow> None
         | Some key \<Rightarrow>
             (case split_on (ch CHR ''.'') key of
                [] \<Rightarrow> None
              | ident # rest \<Rightarrow>
                  jwt_sign rt
                    [(asc ''api_key'', JStr ident),
                     (asc ''exp'', jint (Date_now rt 0 div 1000 + expSeconds)),
                     (asc ''timestamp'', jint (Date_now rt 1 div 1000))]
                    (case rest of [] \<Rightarrow> None | secret # r \<Rightarrow> Some secret)
                    [(asc ''alg'', JStr (asc ''HS256'')),
                     (asc ''typ'', JStr (asc ''JWT'')),
                     (asc ''sign_type'', JStr (asc ''SIGN''))]))
      of
        None \<Rightarrow> Inl (new_Error rt msg_invalid_key)
      | Some tok \<Rightarrow> Inr tok)"

section \<open>The response and the upstream call, as the handlers drive them\<close>

text \<open>
  A handler is modelled by the calls it makes, in order, on the response object and on
  the HTTP client.  \<open>Sse j\<close> is the text \<open>data: \<close> + \<open>JSON.stringify(j)\<close> + two line
  feeds; \<open>Raw c\<close> is an upstream chunk handed on as it came.  \<open>UpstreamPost url body
  tok streamed\<close> is \<open>axios.post(url, body, ...)\<close> with the bearer token \<open>tok\<close>, with
  \<open>responseType: 'stream'\<close> when \<open>streamed\<close>.  Console output is left out.
\<close>

datatype payload = Raw jsstring | Sse json

datatype effect =
    SetHeader jsstring jsstring
  | Status nat
  | SendJson json
  | Write payload
  | EndWith "payload option"
  | UpstreamPost jsstring json jwt bool
  | ExpressNotFound

definition JIUTIAN_API_BASE_URL :: jsstring where
  "JIUTIAN_API_BASE_URL = asc ''https://jiutian.10086.cn/largemodel/api/v2''"

definition completions_url :: jsstring where
  "completions_url = JIUTIAN_API_BASE_URL @ asc ''/completions''"

definition chat_url :: jsstring where
  "chat_url = JIUTIAN_API_BASE_URL @ asc ''/chat/completions''"

definition msg_call_failed :: jsstring where
  "msg_call_failed = [0x4e5d, 0x5929, 0x6a21, 0x578b, 0x8c03, 0x7528, 0x5931, 0x8d25]"

definition msg_stream_error :: jsstring where
  "msg_stream_error = [0x6d41, 0x5f0f, 0x54cd, 0x5e94, 0x9519, 0x8bef]"

definition msg_generate_failed :: jsstring where
  "msg_generate_failed = [0x751f, 0x6210, 0x5931, 0x8d25]"

definition msg_chat_failed :: jsstring where
  "msg_chat_failed = [0x804a, 0x5929, 0x5931, 0x8d25]"

definition msg_model_not_found :: "jsstring \<Rightarrow> jsstring" where
  "msg_model_not_found m =
     [0x6a21, 0x578b, 32, 39] @ m @
     [39, 32, 0x4e0d, 0x5b58, 0x5728, 0xff0c, 0x8bf7, 0x4f7f, 0x7528, 32, 39] @
     asc ''jiutian-lan'' @ [39]"

definition sse_headers :: "effect list" where
  "sse_headers =
     [SetHeader (asc ''Content-Type'') (asc ''text/event-stream''),
      SetHeader (asc ''Cache-Control'') (asc ''no-cache''),
      SetHeader (asc ''Connection'') (asc ''keep-alive'')]"

definition stream_error_frame :: effect where
  "stream_error_frame = EndWith (Some (Sse (JObj [(asc ''error'', JStr msg_stream_error)])))"

subsection \<open>/api/completions and the first /api/chat\<close>

text \<open>
  Lines 345 to 510: \<open>app.post("/api/completions")\<close>, \<open>handleStreamCompletions\<close>, the
  first \<open>app.post("/api/chat")\<close> and \<open>handleStreamChat\<close>.
\<close>

text \<open>The \<open>catch\<close> of the two one-shot handlers.\<close>

definition call_failed :: "env \<Rightarrow> js_error \<Rightarrow> effect list" where
  "call_failed rt e =
     [Status 500,
      SendJson (obj
        [(asc ''error'', Some (JStr msg_call_failed)),
         (asc ''detail'', Some (JStr (message e))),
         (asc ''stack'',
            if NODE_ENV rt = Some (asc ''development'') then Some (JStr (stack e)) else None)])]"

text \<open>The \<open>catch\<close> of the two pass-through streaming handlers.\<close>

definition stream_call_failed :: "js_error \<Rightarrow> effect list" where
  "stream_call_failed e =
     [Write (Sse (JObj
        [(asc ''error'', JStr msg_call_failed),
         (asc ''detail'', JStr (message e))])),
      EndWith None]"

text \<open>The listeners for \<open>data\<close>, \<open>end\<close> and \<open>error\<close> of the pass-through handlers.\<close>

fun passthrough :: "stream_event \<Rightarrow> effect list" where
  "passthrough (Data c t1 t2) = [Write (Raw c)]"
| "passthrough StreamEnd = [EndWith None]"
| "passthrough (StreamError e) = [stream_error_frame]"

definition handleStreamCompletions :: "env \<Rightarrow> (jsstring \<times> json) list \<Rightarrow> effect list" where
  "handleStreamCompletions rt body =
     (case generateToken rt (JIUTIAN_API_KEY rt) 3600 of
        Inl e \<Rightarrow> stream_call_failed e
      | Inr tok \<Rightarrow>
          sse_headers @ [UpstreamPost completions_url (JObj body) tok True] @
          (case reply_stream rt of
             Inl e \<Rightarrow> stream_call_failed e
           | Inr evs \<Rightarrow> concat (map passthrough evs)))"

definition api_completions :: "env \<Rightarrow> (jsstring \<times> json) list \<Rightarrow> effect list" where
  "api_completions rt body =
     (if own body (asc ''stream'') = Some (JBool True) then handleStreamCompletions rt body
      else
        (case generateToken rt (JIUTIAN_API_KEY rt) 3600 of
           Inl e \<Rightarrow> call_failed rt e
         | Inr tok \<Rightarrow>
             UpstreamPost completions_url (JObj body) tok False #
             (case reply_json rt of
                Inl e \<Rightarrow> call_failed rt e
              | Inr d \<Rightarrow> [SendJson d])))"

definition handleStreamChat :: "env \<Rightarrow> (jsstring \<times> json) list \<Rightarrow> effect list" where
  "handleStreamChat rt body =
     (case generateToken rt (JIUTIAN_API_KEY rt) 3600 of
        Inl e \<Rightarrow> stream_call_failed e
      | Inr tok \<Rightarrow>
          sse_headers @ [UpstreamPost chat_url (JObj body) tok True] @
          (case reply_stream rt of
             Inl e \<Rightarrow> stream_call_failed e
           | Inr evs \<Rightarrow> concat (map passthrough evs)))"

definition api_chat :: "env \<Rightarrow> (jsstring \<times> json) list \<Rightarrow> effect list" where
  "api_chat rt body =
     (if own body (asc ''stream'') = Some (JBool True) then handleStreamChat rt body
      else
        (case generateToken rt (JIUTIAN_API_KEY rt) 3600 of
           Inl e \<Rightarrow> call_failed rt e
         | Inr tok \<Rightarrow>
             UpstreamPost chat_url (JObj body) tok False #
             (case reply_json rt of
                Inl e \<Rightarrow> call_failed rt e
              | Inr d \<Rightarrow> [SendJson d])))"

subsection \<open>/api/tags and /health\<close>

text \<open>Lines 518 to 539 and 869 to 871.\<close>

definition api_tags :: "env \<Rightarrow> effect list" where
  "api_tags rt =
     [SendJson (JObj
        [(asc ''models'', JArr
           [JObj
              [(asc ''name'', JStr (asc ''jiutian-lan'')),
               (asc ''modified_at'', JStr (now_iso rt)),
               (asc ''size'', jnat 0),
               (asc ''digest'', JStr (asc ''jiutian-lan-model-digest'')),
               (asc ''details'', JObj
                  [(asc ''format'', JStr (asc ''gguf'')),
                   (asc ''family'', JStr (asc ''jiutian'')),
                   (asc ''families'', JNull),
                   (asc ''parameter_size'', JStr (asc ''7B'')),
                   (asc ''quantization_level'', JStr (asc ''Q4_0''))])]])])]"

definition health :: "env \<Rightarrow> effect list" where
  "health rt =
     [SendJson (JObj
        [(asc ''status'', JStr (asc ''ok'')),
         (asc ''timestamp'', JStr (now_iso rt))])]"

subsection \<open>/api/generate\<close>

text \<open>
  Lines 545 to 701.  The member \<open>system\<close> of the request is read and never used.
\<close>

text \<open>
  What one parsed upstream object makes of \<open>responseText\<close>: \<open>Some None\<close> when it stays
  the empty string, \<open>Some (Some t)\<close> when \<open>data.choices[0].delta.text\<close> is assigned,
  \<open>None\<close> when reading the object throws.
\<close>

definition generate_text :: "env \<Rightarrow> json \<Rightarrow> jsval option" where
  "generate_text rt data =
     do {
       choices \<leftarrow> get (Some data) (asc ''choices'');
       if \<not> truthy choices then Some None
       else do {
         len \<leftarrow> get choices (asc ''length'');
         positive \<leftarrow> gt_zero rt len;
         if \<not> positive then Some None
         else do {
           first \<leftarrow> get choices (asc ''0'');
           delta \<leftarrow> get first (asc ''delta'');
           if \<not> truthy delta then Some None
           else do {
             text \<leftarrow> get delta (asc ''text'');
             Some (if truthy text then text else None)
           }
         }
       }
     }"

text \<open>
  The test for the last chunk, \<open>data.choices && data.choices[0].delta &&
  data.choices[0].delta.status === "finish"\<close>; \<open>None\<close> when it throws.
\<close>

definition finish_marker :: "json \<Rightarrow> bool option" where
  "finish_marker data =
     do {
       choices \<leftarrow> get (Some data) (asc ''choices'');
       if \<not> truthy choices then Some False
       else do {
         first \<leftarrow> get choices (asc ''0'');
         delta \<leftarrow> get first (asc ''delta'');
         if \<not> truthy delta then Some False
         else do {
           status \<leftarrow> get delta (asc ''status'');
           Some (status = Some (JStr (asc ''finish'')))
         }
       }
     }"

text \<open>What \<open>fullResponse += responseText\<close> appends; \<open>None\<close> when the conversion throws.\<close>

definition appended :: "env \<Rightarrow> jsval \<Rightarrow> jsstring option" where
  "appended rt r = (case r of None \<Rightarrow> Some [] | Some t \<Rightarrow> to_string rt t)"

definition generate_frame :: "jsstring \<Rightarrow> json \<Rightarrow> json" where
  "generate_frame t responseText =
     JObj
       [(asc ''model'', JStr (asc ''jiutian-lan'')),
        (asc ''created_at'', JStr t),
        (asc ''response'', responseText),
        (asc ''done'', JBool False)]"

definition generate_final :: "jsstring \<Rightarrow> jsval \<Rightarrow> jsstring \<Rightarrow> json" where
  "generate_final t prompt_length fullResponse =
     obj
       [(asc ''model'', Some (JStr (asc ''jiutian-lan''))),
        (asc ''created_at'', Some (JStr t)),
        (asc ''response'', Some (JStr [])),
        (asc ''done'', Some (JBool True)),
        (asc ''context'', Some (JArr [jnat 1, jnat 2, jnat 3])),
        (asc ''total_duration'', Some (jnat 1000000000)),
        (asc ''load_duration'', Some (jnat 100000000)),
        (asc ''prompt_eval_count'', prompt_length),
        (asc ''prompt_eval_duration'', Some (jnat 200000000)),
        (asc ''eval_count'', Some (jnat (length fullResponse))),
        (asc ''eval_duration'', Some (jnat 700000000))]"

text \<open>
  The \<open>data\<close> listener of the streaming branch: the calls it makes on the response and
  the new value of \<open>fullResponse\<close>.  Whatever is thrown inside is caught and logged, so
  a throw ends the listener with what it had done until then.
\<close>

definition generate_on_data ::
  "env \<Rightarrow> jsval \<Rightarrow> jsstring \<Rightarrow> jsstring \<Rightarrow> jsstring \<Rightarrow> jsstring \<Rightarrow> effect list \<times> jsstring" where
  "generate_on_data rt prompt fullResponse text t1 t2 =
     (if \<not> starts_with text (asc ''data: '') then ([], fullResponse)
      else
        (case JSON_parse (drop 6 text) of
           None \<Rightarrow> ([], fullResponse)
         | Some data \<Rightarrow>
             (case generate_text rt data of
                None \<Rightarrow> ([], fullResponse)
              | Some r \<Rightarrow>
                  (case appended rt r of
                     None \<Rightarrow> ([], fullResponse)
                   | Some piece \<Rightarrow>
                       (let full = fullResponse @ piece;
                            frame = Write (Sse (generate_frame t1 (default_to r (JStr []))))
                        in if finish_marker data = Some True then
                             (case get prompt (asc ''length'') of
                                None \<Rightarrow> ([frame], full)
                              | Some n \<Rightarrow>
                                  ([frame, Write (Sse (generate_final t2 n full)), EndWith None],
                                   full))
                           else ([frame], full))))))"

text \<open>
  The streaming branch listens for \<open>data\<close> and \<open>error\<close> only; nothing is registered
  for \<open>end\<close>.
\<close>

fun generate_events :: "env \<Rightarrow> jsval \<Rightarrow> jsstring \<Rightarrow> stream_event list \<Rightarrow> effect list" where
  "generate_events rt prompt fullResponse [] = []"
| "generate_events rt prompt fullResponse (Data c t1 t2 # evs) =
     fst (generate_on_data rt prompt fullResponse c t1 t2) @
     generate_events rt prompt (snd (generate_on_data rt prompt fullResponse c t1 t2)) evs"
| "generate_events rt prompt fullResponse (StreamEnd # evs) =
     generate_events rt prompt fullResponse evs"
| "generate_events rt prompt fullResponse (StreamError e # evs) =
     stream_error_frame # generate_events rt prompt fullResponse evs"

text \<open>The one-piece answer of the non-streaming branch; \<open>None\<close> when building it throws.\<close>

definition generate_reply :: "env \<Rightarrow> jsval \<Rightarrow> json \<Rightarrow> json option" where
  "generate_reply rt prompt d =
     do {
       choices \<leftarrow> get (Some d) (asc ''choices'');
       responseText \<leftarrow>
         (if \<not> truthy choices then Some (JStr [])
          else do {
            len \<leftarrow> get choices (asc ''length'');
            positive \<leftarrow> gt_zero rt len;
            if \<not> positive then Some (JStr [])
            else do {
              first \<leftarrow> get choices (asc ''0'');
              text \<leftarrow> get first (asc ''text'');
              Some (or_else text (JStr []))
            }
          });
       prompt_length \<leftarrow> get prompt (asc ''length'');
       response_length \<leftarrow> get (Some responseText) (asc ''length'');
       Some (obj
         [(asc ''model'', Some (JStr (asc ''jiutian-lan''))),
          (asc ''created_at'', Some (JStr (now_iso rt))),
          (asc ''response'', Some responseText),
          (asc ''done'', Some (JBool True)),
          (asc ''context'', Some (JArr [jnat 1, jnat 2, jnat 3])),
          (asc ''total_duration'', Some (jnat 1000000000)),
          (asc ''load_duration'', Some (jnat 100000000)),
          (asc ''prompt_eval_count'', prompt_length),
          (asc ''prompt_eval_duration'', Some (jnat 200000000)),
          (asc ''eval_count'', response_length),
          (asc ''eval_duration'', Some (jnat 700000000))])
     }"

definition generate_failed :: "js_error \<Rightarrow> effect list" where
  "generate_failed e =
     [Status 500,
      SendJson (JObj
        [(asc ''error'', JStr msg_generate_failed),
         (asc ''detail'', JStr (message e))])]"

text \<open>
  The answer to a request for another model is \<open>res.status(404).json({error: ...})\<close>:
  \<open>res.status(404)\<close> is called before the template literal of the message is
  evaluated, so when that literal throws the status call has been made already and the
  \<open>catch\<close> follows it.
\<close>

definition model_not_found :: "jsstring \<Rightarrow> effect list" where
  "model_not_found m =
     [Status 404, SendJson (JObj [(asc ''error'', JStr (msg_model_not_found m))])]"

definition api_generate :: "env \<Rightarrow> (jsstring \<times> json) list \<Rightarrow> effect list" where
  "api_generate rt body =
     (let model = own body (asc ''model'');
          prompt = own body (asc ''prompt'');
          stream = default_to (own body (asc ''stream'')) (JBool True);
          options = default_to (own body (asc ''options'')) (JObj [])
      in if model \<noteq> Some (JStr (asc ''jiutian-lan'')) then
           (case template_string rt model of
              None \<Rightarrow> Status 404 # generate_failed (type_error rt)
            | Some m \<Rightarrow> model_not_found m)
         else
           (case (get (Some options) (asc ''temperature''),
                  get (Some options) (asc ''top_p'')) of
              (Some temperature, Some top_p) \<Rightarrow>
                (let jiutianParams = obj
                       [(asc ''model'', Some (JStr (asc ''jiutian-lan''))),
                        (asc ''prompt'', prompt),
                        (asc ''temperature'', Some (or_else temperature (JNum (Dec False 7 (- 1))))),
                        (asc ''top_p'', Some (or_else top_p (JNum (Dec False 9 (- 1))))),
                        (asc ''history'', Some (JArr [])),
                        (asc ''stream'', Some stream)]
                 in case generateToken rt (JIUTIAN_API_KEY rt) 3600 of
                      Inl e \<Rightarrow> generate_failed e
                    | Inr tok \<Rightarrow>
                        if truthy (Some stream) then
                          sse_headers @ [UpstreamPost completions_url jiutianParams tok True] @
                          (case reply_stream rt of
                             Inl e \<Rightarrow> generate_failed e
                           | Inr evs \<Rightarrow> generate_events rt prompt [] evs)
                        else
                          UpstreamPost completions_url jiutianParams tok False #
                          (case reply_json rt of
                             Inl e \<Rightarrow> generate_failed e
                           | Inr d \<Rightarrow>
                               (case generate_reply rt prompt d of
                                  None \<Rightarrow> generate_failed (type_error rt)
                                | Some r \<Rightarrow> [SendJson r])))
            | _ \<Rightarrow> generate_failed (type_error rt)))"

subsection \<open>The second /api/chat\<close>

text \<open>Lines 707 to 866: the Ollama-compatible \<open>app.post("/api/chat")\<close>.\<close>

definition chat_content :: "env \<Rightarrow> json \<Rightarrow> jsval option" where
  "chat_content rt data =
     do {
       choices \<leftarrow> get (Some data) (asc ''choices'');
       if \<not> truthy choices then Some None
       else do {
         len \<leftarrow> get choices (asc ''length'');
         positive \<leftarrow> gt_zero rt len;
         if \<not> positive then Some None
         else do {
           first \<leftarrow> get choices (asc ''0'');
           delta \<leftarrow> get first (asc ''delta'');
           if \<not> truthy delta then Some None
           else do {
             content \<leftarrow> get delta (asc ''content'');
             Some (if truthy content then content else None)
           }
         }
       }
     }"

definition assistant :: "json \<Rightarrow> json" where
  "assistant content =
     JObj [(asc ''role'', JStr (asc ''assistant'')), (asc ''content'', content)]"

definition chat_frame :: "jsstring \<Rightarrow> json \<Rightarrow> json" where
  "chat_frame t contentDelta =
     JObj
       [(asc ''model'', JStr (asc ''jiutian-lan'')),
        (asc ''created_at'', JStr t),
        (asc ''message'', assistant contentDelta),
        (asc ''done'', JBool False)]"

definition chat_final :: "jsstring \<Rightarrow> jsstring \<Rightarrow> json" where
  "chat_final t fullContent =
     JObj
       [(asc ''model'', JStr (asc ''jiutian-lan'')),
        (asc ''created_at'', JStr t),
        (asc ''message'', assistant (JStr [])),
        (asc ''done'', JBool True),
        (asc ''total_duration'', jnat 1000000000),
        (asc ''load_duration'', jnat 100000000),
        (asc ''prompt_eval_duration'', jnat 200000000),
        (asc ''eval_count'', jnat (length fullContent)),
        (asc ''eval_duration'', jnat 700000000)]"

definition chat_on_data ::
  "env \<Rightarrow> jsstring \<Rightarrow> jsstring \<Rightarrow> jsstring \<Rightarrow> jsstring \<Rightarrow> effect list \<times> jsstring" where
  "chat_on_data rt fullContent text t1 t2 =
     (if \<not> starts_with text (asc ''data: '') then ([], fullContent)
      else
        (case JSON_parse (drop 6 text) of
           None \<Rightarrow> ([], fullContent)
         | Some data \<Rightarrow>
             (case chat_content rt data of
                None \<Rightarrow> ([], fullContent)
              | Some r \<Rightarrow>
                  (case appended rt r of
                     None \<Rightarrow> ([], fullContent)
                   | Some piece \<Rightarrow>
                       (let full = fullContent @ piece;
                            frame = Write (Sse (chat_frame t1 (default_to r (JStr []))))
                        in if finish_marker data = Some True then
                             ([frame, Write (Sse (chat_final t2 full)), EndWith None], full)
                           else ([frame], full))))))"

fun chat_events :: "env \<Rightarrow> jsstring \<Rightarrow> stream_event list \<Rightarrow> effect list" where
  "chat_events rt fullContent [] = []"
| "chat_events rt fullContent (Data c t1 t2 # evs) =
     fst (chat_on_data rt fullContent c t1 t2) @
     chat_events rt (snd (chat_on_data rt fullContent c t1 t2)) evs"
| "chat_events rt fullContent (StreamEnd # evs) = chat_events rt fullContent evs"
| "chat_events rt fullContent (StreamError e # evs) =
     stream_error_frame # chat_events rt fullContent evs"

definition chat_reply :: "env \<Rightarrow> json \<Rightarrow> json option" where
  "chat_reply rt d =
     do {
       choices \<leftarrow> get (Some d) (asc ''choices'');
       content \<leftarrow>
         (if \<not> truthy choices then Some (JStr [])
          else do {
            len \<leftarrow> get choices (asc ''length'');
            positive \<leftarrow> gt_zero rt len;
            if \<not> positive then Some (JStr [])
            else do {
              first \<leftarrow> get choices (asc ''0'');
              msg \<leftarrow> get first (asc ''message'');
              if \<not> truthy msg then Some (JStr [])
              else do {
                c \<leftarrow> get msg (asc ''content'');
                Some (or_else c (JStr []))
              }
            }
          });
       content_length \<leftarrow> get (Some content) (asc ''length'');
       Some (obj
         [(asc ''model'', Some (JStr (asc ''jiutian-lan''))),
          (asc ''created_at'', Some (JStr (now_iso rt))),
          (asc ''message'', Some (assistant content)),
          (asc ''done'', Some (JBool True)),
          (asc ''total_duration'', Some (jnat 1000000000)),
          (asc ''load_duration'', Some (jnat 100000000)),
          (asc ''prompt_eval_duration'', Some (jnat 200000000)),
          (asc ''eval_count'', content_length),
          (asc ''eval_duration'', Some (jnat 700000000))])
     }"

definition chat_failed :: "js_error \<Rightarrow> effect list" where
  "chat_failed e =
     [Status 500,
      SendJson (JObj
        [(asc ''error'', JStr msg_chat_failed),
         (asc ''detail'', JStr (message e))])]"

definition api_chat_ollama :: "env \<Rightarrow> (jsstring \<times> json) list \<Rightarrow> effect list" where
  "api_chat_ollama rt body =
     (let model = own body (asc ''model'');
          messages = own body (asc ''messages'');
          stream = default_to (own body (asc ''stream'')) (JBool True);
          options = default_to (own body (asc ''options'')) (JObj [])
      in if model \<noteq> Some (JStr (asc ''jiutian-lan'')) then
           (case template_string rt model of
              None \<Rightarrow> Status 404 # chat_failed (type_error rt)
            | Some m \<Rightarrow> model_not_found m)
         else
           (case (get (Some options) (asc ''temperature''),
                  get (Some options) (asc ''top_p'')) of
              (Some temperature, Some top_p) \<Rightarrow>
                (let jiutianParams = obj
                       [(asc ''model'', Some (JStr (asc ''jiutian-lan''))),
                        (asc ''messages'', messages),
                        (asc ''temperature'', Some (or_else temperature (JNum (Dec False 7 (- 1))))),
                        (asc ''top_p'', Some (or_else top_p (JNum (Dec False 9 (- 1))))),
                        (asc ''stream'', Some stream)]
                 in case generateToken rt (JIUTIAN_API_KEY rt) 3600 of
                      Inl e \<Rightarrow> chat_failed e
                    | Inr tok \<Rightarrow>
                        if truthy (Some stream) then
                          sse_headers @ [UpstreamPost chat_url jiutianParams tok True] @
                          (case reply_stream rt of
                             Inl e \<Rightarrow> chat_failed e
                           | Inr evs \<Rightarrow> chat_events rt [] evs)
                        else
                          UpstreamPost chat_url jiutianParams tok False #
                          (case reply_json rt of
                             Inl e \<Rightarrow> chat_failed e
                           | Inr d \<Rightarrow>
                               (case chat_reply rt d of
                                  None \<Rightarrow> chat_failed (type_error rt)
                                | Some r \<Rightarrow> [SendJson r])))
            | _ \<Rightarrow> chat_failed (type_error rt)))"

subsection \<open>Routing\<close>

text \<open>
  The routes in the order the program registers them.  A request goes to the first route
  whose method and path match; no handler of this program passes a request on, so a
  later route for the same method and path is never reached.  The paths are kept as the
  endpoint they name.
\<close>

datatype http_method = GET | POST

datatype endpoint = ApiCompletions | ApiChat | ApiTags | ApiGenerate | Health | Elsewhere

datatype handler =
    Completions | Chat | Tags | Generate | ChatOllama | HealthCheck

record request =
  req_method :: http_method
  req_path :: endpoint
  req_body :: "(jsstring \<times> json) list"

definition routes :: "(http_method \<times> endpoint \<times> handler) list" where
  "routes =
     [(POST, ApiCompletions, Completions),
      (POST, ApiChat, Chat),
      (GET, ApiTags, Tags),
      (POST, ApiGenerate, Generate),
      (POST, ApiChat, ChatOllama),
      (GET, Health, HealthCheck)]"

fun run_handler :: "env \<Rightarrow> handler \<Rightarrow> (jsstring \<times> json) list \<Rightarrow> effect list" where
  "run_handler rt Completions body = api_completions rt body"
| "run_handler rt Chat body = api_chat rt body"
| "run_handler rt Tags body = api_tags rt"
| "run_handler rt Generate body = api_generate rt body"
| "run_handler rt ChatOllama body = api_chat_ollama rt body"
| "run_handler rt HealthCheck body = health rt"

definition dispatch :: "env \<Rightarrow> request \<Rightarrow> effect list" where
  "dispatch rt req =
     (case find (\<lambda>(m, p, h). m = req_method req \<and> p = req_path req) routes of
        None \<Rightarrow> [ExpressNotFound]
      | Some (m, p, h) \<Rightarrow> run_handler rt h (req_body req))"

section \<open>Reading a trace\<close>

text \<open>The objects written as event-stream frames, in order.\<close>

fun frames :: "effect list \<Rightarrow> json list" where
  "frames [] = []"
| "frames (Write (Sse j) # es) = j # frames es"
| "frames (EndWith (Some (Sse j)) # es) = j # frames es"
| "frames (e # es) = frames es"

fun member :: "json \<Rightarrow> jsstring \<Rightarrow> jsval" where
  "member (JObj kvs) k = own kvs k"
| "member j k = None"

definition terminal :: "json \<Rightarrow> bool" where
  "terminal j \<longleftrightarrow> member j (asc ''done'') = Some (JBool True)"

definition upstream_calls :: "effect list \<Rightarrow> effect list" where
  "upstream_calls es = filter (\<lambda>e. case e of UpstreamPost u b t s \<Rightarrow> True | _ \<Rightarrow> False) es"

text \<open>A stream of chunks, each with the two clock readings of its handling.\<close>

definition chunks :: "(jsstring \<times> jsstring \<times> jsstring) list \<Rightarrow> stream_event list" where
  "chunks cs = map (\<lambda>(c, t1, t2). Data c t1 t2) cs"

text \<open>
  The chunks on which the \<open>data\<close> listener of \<open>/api/generate\<close> (of the second
  \<open>/api/chat\<close>) reaches its finish branch: the chunk is a frame, it parses, reading the
  text does not throw, and the finish test holds.
\<close>

definition generate_finishes :: "env \<Rightarrow> jsstring \<Rightarrow> bool" where
  "generate_finishes rt text \<longleftrightarrow>
     starts_with text (asc ''data: '') \<and>
     (case JSON_parse (drop 6 text) of
        None \<Rightarrow> False
      | Some data \<Rightarrow>
          (case generate_text rt data of
             None \<Rightarrow> False
           | Some r \<Rightarrow> appended rt r \<noteq> None \<and> finish_marker data = Some True))"

definition chat_finishes :: "env \<Rightarrow> jsstring \<Rightarrow> bool" where
  "chat_finishes rt text \<longleftrightarrow>
     starts_with text (asc ''data: '') \<and>
     (case JSON_parse (drop 6 text) of
        None \<Rightarrow> False
      | Some data \<Rightarrow>
          (case chat_content rt data of
             None \<Rightarrow> False
           | Some r \<Rightarrow> appended rt r \<noteq> None \<and> finish_marker data = Some True))"

text \<open>
  The delta text of a chunk, as the listener takes it: the string form of
  \<open>data.choices[0].delta.text\<close> (\<open>.content\<close> for chat) when the chunk is a frame that
  parses and the member is there and truthy; empty otherwise.
\<close>

definition generate_piece :: "env \<Rightarrow> jsstring \<Rightarrow> jsstring" where
  "generate_piece rt text =
     (if \<not> starts_with text (asc ''data: '') then []
      else
        (case JSON_parse (drop 6 text) of
           None \<Rightarrow> []
         | Some data \<Rightarrow>
             (case generate_text rt data of
                None \<Rightarrow> []
              | Some r \<Rightarrow> (case appended rt r of None \<Rightarrow> [] | Some piece \<Rightarrow> piece))))"

definition chat_piece :: "env \<Rightarrow> jsstring \<Rightarrow> jsstring" where
  "chat_piece rt text =
     (if \<not> starts_with text (asc ''data: '') then []
      else
        (case JSON_parse (drop 6 text) of
           None \<Rightarrow> []
         | Some data \<Rightarrow>
             (case chat_content rt data of
                None \<Rightarrow> []
              | Some r \<Rightarrow> (case appended rt r of None \<Rightarrow> [] | Some piece \<Rightarrow> piece))))"

section \<open>Example data\<close>

text \<open>
  Upstream frames in the provider's format: a delta with a text, a chat delta with a
  content, and the closing delta with the finish status; and the objects they spell.
\<close>

definition delta_chunk :: "string \<Rightarrow> jsstring" where
  \<open>delta_chunk t =
     asc ''data: {"model":"jiutian-lan","choices":[{"delta":{"index":0,"text":"'' @ asc t @
     asc ''","type":"text","status":"init"}}],"object":"chat.completion.chunk"}'' @ [10, 10]\<close>

definition delta_event :: "jsstring \<Rightarrow> json" where
  "delta_event t =
     JObj
       [(asc ''model'', JStr (asc ''jiutian-lan'')),
        (asc ''choices'', JArr
           [JObj
              [(asc ''delta'', JObj
                  [(asc ''index'', jnat 0),
                   (asc ''text'', JStr t),
                   (asc ''type'', JStr (asc ''text'')),
                   (asc ''status'', JStr (asc ''init''))])]]),
        (asc ''object'', JStr (asc ''chat.completion.chunk''))]"

definition chat_delta_chunk :: "string \<Rightarrow> jsstring" where
  \<open>chat_delta_chunk t =
     asc ''data: {"model":"jiutian-lan","choices":[{"delta":{"index":0,"content":"'' @ asc t @
     asc ''","type":"text","status":"init"}}],"object":"chat.completion.chunk"}'' @ [10, 10]\<close>

definition chat_delta_event :: "jsstring \<Rightarrow> json" where
  "chat_delta_event t =
     JObj
       [(asc ''model'', JStr (asc ''jiutian-lan'')),
        (asc ''choices'', JArr
           [JObj
              [(asc ''delta'', JObj
                  [(asc ''index'', jnat 0),
                   (asc ''content'', JStr t),
                   (asc ''type'', JStr (asc ''text'')),
                   (asc ''status'', JStr (asc ''init''))])]]),
        (asc ''object'', JStr (asc ''chat.completion.chunk''))]"

definition finish_chunk :: jsstring where
  \<open>finish_chunk =
     asc ''data: {"model":"jiutian-lan","choices":[{"delta":{"finish_reason":"stop","index":0,"type":"text","status":"finish"}}],"object":"chat.completion.chunk"}'' @
     [10, 10]\<close>

definition finish_event :: json where
  "finish_event =
     JObj
       [(asc ''model'', JStr (asc ''jiutian-lan'')),
        (asc ''choices'', JArr
           [JObj
              [(asc ''delta'', JObj
                  [(asc ''finish_reason'', JStr (asc ''stop'')),
                   (asc ''index'', jnat 0),
                   (asc ''type'', JStr (asc ''text'')),
                   (asc ''status'', JStr (asc ''finish''))])]]),
        (asc ''object'', JStr (asc ''chat.completion.chunk''))]"

text \<open>A frame cut off in the middle, and the two halves of a frame split in transit.\<close>

definition broken_chunk :: jsstring where
  \<open>broken_chunk = asc ''data: {"model":"jiutian-lan","choices":[{"delta":{"index":0,"te''\<close>

definition first_half :: jsstring where
  \<open>first_half = asc ''data: {"model":"jiutian-lan","choices":[{"delta":{"index":0,"text":"6","ty''\<close>

definition second_half :: jsstring where
  \<open>second_half =
     asc ''pe":"text","status":"init"}}],"object":"chat.completion.chunk"}'' @ [10, 10]\<close>

text \<open>The request of the scenario: model \<open>jiutian-lan\<close>, prompt \<open>2*3=?\<close>, streaming.\<close>

definition scenario_body :: "(jsstring \<times> json) list" where
  "scenario_body =
     [(asc ''model'', JStr (asc ''jiutian-lan'')),
      (asc ''prompt'', JStr (asc ''2*3=?'')),
      (asc ''stream'', JBool True)]"

definition scenario_stream :: "stream_event list" where
  "scenario_stream =
     chunks
       [(delta_chunk ''2'', asc ''t1'', asc ''u1''),
        (delta_chunk ''*'', asc ''t2'', asc ''u2''),
        (delta_chunk ''3'', asc ''t3'', asc ''u3''),
        (delta_chunk ''='', asc ''t4'', asc ''u4''),
        (delta_chunk ''6'', asc ''t5'', asc ''u5''),
        (finish_chunk, asc ''t6'', asc ''u6'')]"

text \<open>What a frame says in the members the scenario names.\<close>

definition summary :: "json \<Rightarrow> jsval \<times> jsval \<times> jsval \<times> jsval" where
  "summary j =
     (member j (asc ''response''), member j (asc ''done''),
      member j (asc ''eval_count''), member j (asc ''prompt_eval_count''))"

text \<open>
  An environment for the examples.  No example converts a number to a string or a string
  to a number, so what stands for these two engine functions here is never consulted.
\<close>

definition example_env :: env where
  "example_env =
     \<lparr>JIUTIAN_API_KEY = Some (asc ''key-id.signing-key''),
      NODE_ENV = Some (asc ''production''),
      Date_now = (\<lambda>n. 1725502748123),
      now_iso = asc ''2024-09-05T02:19:08.123Z'',
      number_toString = (\<lambda>n. asc ''0''),
      string_gt_zero = (\<lambda>s. False),
      error_stack = (\<lambda>m. asc ''Error''),
      type_error = \<lparr>message = asc ''TypeError'', stack = asc ''TypeError''\<rparr>,
      reply_json = Inr JNull,
      reply_stream = Inr []\<rparr>"

definition example_token :: jwt where
  "example_token =
     Jwt
       [(asc ''alg'', JStr (asc ''HS256'')),
        (asc ''typ'', JStr (asc ''JWT'')),
        (asc ''sign_type'', JStr (asc ''SIGN''))]
       [(asc ''api_key'', JStr (asc ''key-id'')),
        (asc ''exp'', jint 1725506348),
        (asc ''timestamp'', jint 1725502748),
        (asc ''iat'', jint 1725502748)]
       (HMAC_SHA256 (asc ''signing-key'')
          [(asc ''alg'', JStr (asc ''HS256'')),
           (asc ''typ'', JStr (asc ''JWT'')),
           (asc ''sign_type'', JStr (asc ''SIGN''))]
          [(asc ''api_key'', JStr (asc ''key-id'')),
           (asc ''exp'', jint 1725506348),
           (asc ''timestamp'', jint 1725502748),
           (asc ''iat'', jint 1725502748)])"

text \<open>A streaming request to \<open>/api/generate\<close> that carries no prompt.\<close>

definition no_prompt_body :: "(jsstring \<times> json) list" where
  "no_prompt_body =
     [(asc ''model'', JStr (asc ''jiutian-lan'')), (asc ''stream'', JBool True)]"

definition other_body :: "(jsstring \<times> json) list" where
  "other_body = [(asc ''model'', JStr (asc ''other-model'')), (asc ''prompt'', JStr (asc ''x''))]"

definition other_chat_body :: "(jsstring \<times> json) list" where
  "other_chat_body =
     [(asc ''model'', JStr (asc ''other-model'')),
      (asc ''messages'', JArr
         [JObj [(asc ''role'', JStr (asc ''user'')), (asc ''content'', JStr (asc ''hi''))]]),
      (asc ''stream'', JBool True)]"

definition example_error :: js_error where
  "example_error = \<lparr>message = asc ''socket hang up'', stack = asc ''Error: socket hang up''\<rparr>"

definition development_env :: env where
  "development_env = example_env\<lparr>JIUTIAN_API_KEY := None, NODE_ENV := Some (asc ''development'')\<rparr>"

section \<open>Evaluation and structure lemmas\<close>

lemmas parse_eval =
  JSON_parse_def asc_def ch_def is_ws_def is_digit_def unescape_def cons_tok_def
  lex_number_def int_part_def frac_part_def exp_part_def digits_val_def hex4_def hex_val_def

lemma starts_with_chunks:
  "starts_with (delta_chunk t) (asc ''data: '')"
  "starts_with (chat_delta_chunk t) (asc ''data: '')"
  "starts_with finish_chunk (asc ''data: '')"
  "starts_with broken_chunk (asc ''data: '')"
  "starts_with first_half (asc ''data: '')"
  "\<not> starts_with second_half (asc ''data: '')"
  by (simp_all add: starts_with_def delta_chunk_def chat_delta_chunk_def finish_chunk_def
        broken_chunk_def first_half_def second_half_def asc_def ch_def)

lemma parse_delta_chunks:
  "JSON_parse (drop 6 (delta_chunk ''2'')) = Some (delta_event (asc ''2''))"
  "JSON_parse (drop 6 (delta_chunk ''*'')) = Some (delta_event (asc ''*''))"
  "JSON_parse (drop 6 (delta_chunk ''3'')) = Some (delta_event (asc ''3''))"
  "JSON_parse (drop 6 (delta_chunk ''='')) = Some (delta_event (asc ''=''))"
  "JSON_parse (drop 6 (delta_chunk ''6'')) = Some (delta_event (asc ''6''))"
  by (simp_all add: delta_chunk_def delta_event_def jnat_def parse_eval)

lemma parse_chat_delta_chunk:
  "JSON_parse (drop 6 (chat_delta_chunk ''6'')) = Some (chat_delta_event (asc ''6''))"
  by (simp add: chat_delta_chunk_def chat_delta_event_def jnat_def parse_eval)

lemma parse_finish_chunk: "JSON_parse (drop 6 finish_chunk) = Some finish_event"
  by (simp add: finish_chunk_def finish_event_def jnat_def parse_eval)

lemma parse_broken_chunk: "JSON_parse (drop 6 broken_chunk) = None"
  by (simp add: broken_chunk_def parse_eval)



lemma generate_text_delta_event:
  "t \<noteq> [] \<Longrightarrow> generate_text rt (delta_event t) = Some (Some (JStr t))"
  by (simp add: generate_text_def delta_event_def own_def jnat_def num_is_zero_def asc_def ch_def)

lemma generate_text_finish_event: "generate_text rt finish_event = Some None"
  by (simp add: generate_text_def finish_event_def own_def jnat_def num_is_zero_def asc_def ch_def)

lemma chat_content_delta_event:
  "t \<noteq> [] \<Longrightarrow> chat_content rt (chat_delta_event t) = Some (Some (JStr t))"
  by (simp add: chat_content_def chat_delta_event_def own_def jnat_def num_is_zero_def asc_def ch_def)


lemma finish_marker_events:
  "finish_marker (delta_event t) = Some False"
  "finish_marker (chat_delta_event t) = Some False"
  "finish_marker finish_event = Some True"
  by (simp_all add: finish_marker_def delta_event_def chat_delta_event_def finish_event_def
        own_def asc_def ch_def)

text \<open>A chunk that is a frame whose JSON is malformed leaves no trace.\<close>

lemma generate_on_data_malformed:
  "starts_with bad (asc ''data: '') \<Longrightarrow> JSON_parse (drop 6 bad) = None \<Longrightarrow>
   generate_on_data rt prompt full bad t1 t2 = ([], full)"
  by (simp add: generate_on_data_def)

lemma chat_on_data_malformed:
  "starts_with bad (asc ''data: '') \<Longrightarrow> JSON_parse (drop 6 bad) = None \<Longrightarrow>
   chat_on_data rt full bad t1 t2 = ([], full)"
  by (simp add: chat_on_data_def)

lemma generate_events_drop:
  assumes "\<And>full. generate_on_data rt prompt full c t1 t2 = ([], full)"
  shows "generate_events rt prompt full (xs @ Data c t1 t2 # ys) =
         generate_events rt prompt full (xs @ ys)"
proof (induction xs arbitrary: full)
  case Nil
  show ?case by (simp add: assms)
next
  case (Cons e xs)
  show ?case by (cases e) (simp_all add: Cons.IH)
qed

lemma chat_events_drop:
  assumes "\<And>full. chat_on_data rt full c t1 t2 = ([], full)"
  shows "chat_events rt full (xs @ Data c t1 t2 # ys) = chat_events rt full (xs @ ys)"
proof (induction xs arbitrary: full)
  case Nil
  show ?case by (simp add: assms)
next
  case (Cons e xs)
  show ?case by (cases e) (simp_all add: Cons.IH)
qed

text \<open>What the listeners do to one ordinary delta and to the closing delta.\<close>

lemma generate_on_data_delta:
  assumes "starts_with c (asc ''data: '')" and "JSON_parse (drop 6 c) = Some (delta_event t)"
    and "t \<noteq> []"
  shows "generate_on_data rt prompt full c t1 t2 =
         ([Write (Sse (generate_frame t1 (JStr t)))], full @ t)"
  using assms
  by (simp add: generate_on_data_def generate_text_delta_event finish_marker_events
        appended_def default_to_def)

lemma generate_on_data_finish_event:
  assumes "starts_with c (asc ''data: '')" and "JSON_parse (drop 6 c) = Some finish_event"
    and "get prompt (asc ''length'') = Some n"
  shows "generate_on_data rt prompt full c t1 t2 =
         ([Write (Sse (generate_frame t1 (JStr []))),
           Write (Sse (generate_final t2 n full)),
           EndWith None], full)"
  using assms
  by (simp add: generate_on_data_def generate_text_finish_event finish_marker_events
        appended_def default_to_def)


text \<open>Frames, terminal frames and the accumulated text along a stream of chunks.\<close>

lemma generate_frame_not_terminal: "\<not> terminal (generate_frame t r)"
  by (simp add: generate_frame_def terminal_def own_def asc_def ch_def)

lemma generate_final_terminal: "terminal (generate_final t n full)"
  by (cases n) (simp_all add: generate_final_def obj_def terminal_def own_def asc_def ch_def)


lemma chat_frame_not_terminal: "\<not> terminal (chat_frame t r)"
  by (simp add: chat_frame_def terminal_def own_def asc_def ch_def)

lemma chat_final_terminal: "terminal (chat_final t full)"
  by (simp add: chat_final_def terminal_def own_def asc_def ch_def)


lemma generate_on_data_state:
  "snd (generate_on_data rt p full c t1 t2) = full @ generate_piece rt c"
  by (simp add: generate_on_data_def generate_piece_def Let_def split: option.splits)

lemma chat_on_data_state:
  "snd (chat_on_data rt full c t1 t2) = full @ chat_piece rt c"
  by (simp add: chat_on_data_def chat_piece_def Let_def split: option.splits)

lemma generate_on_data_plain:
  assumes nf: "\<not> generate_finishes rt c"
  shows "\<exists>js. fst (generate_on_data rt p full c t1 t2) = map (\<lambda>j. Write (Sse j)) js \<and>
        (\<forall>j\<in>set js. \<not> terminal j)"
proof (cases "fst (generate_on_data rt p full c t1 t2) = []")
  case True
  then show ?thesis by (intro exI [of _ "[]"]) simp
next
  case False
  with nf obtain r where
    "fst (generate_on_data rt p full c t1 t2) = [Write (Sse (generate_frame t1 r))]"
    by (auto simp: generate_on_data_def generate_finishes_def Let_def
          split: option.splits if_splits)
  then show ?thesis
    by (intro exI [of _ "[generate_frame t1 r]"]) (simp add: generate_frame_not_terminal)
qed

lemma generate_on_data_finish:
  "generate_finishes rt c \<Longrightarrow> get p (asc ''length'') = Some n \<Longrightarrow>
   \<exists>r. fst (generate_on_data rt p full c t1 t2) =
     [Write (Sse (generate_frame t1 r)),
      Write (Sse (generate_final t2 n (full @ generate_piece rt c))),
      EndWith None]"
  by (auto simp: generate_on_data_def generate_finishes_def generate_piece_def Let_def
        split: option.splits if_splits)

lemma chat_on_data_plain:
  assumes nf: "\<not> chat_finishes rt c"
  shows "\<exists>js. fst (chat_on_data rt full c t1 t2) = map (\<lambda>j. Write (Sse j)) js \<and>
        (\<forall>j\<in>set js. \<not> terminal j)"
proof (cases "fst (chat_on_data rt full c t1 t2) = []")
  case True
  then show ?thesis by (intro exI [of _ "[]"]) simp
next
  case False
  with nf obtain r where
    "fst (chat_on_data rt full c t1 t2) = [Write (Sse (chat_frame t1 r))]"
    by (auto simp: chat_on_data_def chat_finishes_def Let_def
          split: option.splits if_splits)
  then show ?thesis
    by (intro exI [of _ "[chat_frame t1 r]"]) (simp add: chat_frame_not_terminal)
qed

lemma chat_on_data_finish:
  "chat_finishes rt c \<Longrightarrow>
   \<exists>r. fst (chat_on_data rt full c t1 t2) =
     [Write (Sse (chat_frame t1 r)),
      Write (Sse (chat_final t2 (full @ chat_piece rt c))),
      EndWith None]"
  by (auto simp: chat_on_data_def chat_finishes_def chat_piece_def Let_def
        split: option.splits if_splits)

lemma generate_events_plain:
  "\<forall>x\<in>set cs. \<not> generate_finishes rt (fst x) \<Longrightarrow>
   \<exists>js. generate_events rt p full (chunks cs) = map (\<lambda>j. Write (Sse j)) js \<and>
        (\<forall>j\<in>set js. \<not> terminal j)"
proof (induction cs arbitrary: full)
  case Nil
  show ?case by (simp add: chunks_def)
next
  case (Cons x cs)
  obtain c t1 t2 where x: "x = (c, t1, t2)" by (cases x)
  from Cons.prems x have "\<not> generate_finishes rt c" by simp
  from generate_on_data_plain [OF this, of p full t1 t2] obtain js where
    js: "fst (generate_on_data rt p full c t1 t2) = map (\<lambda>j. Write (Sse j)) js"
        "\<forall>j\<in>set js. \<not> terminal j" by blast
  from Cons.prems have "\<forall>x\<in>set cs. \<not> generate_finishes rt (fst x)" by simp
  from Cons.IH [OF this, of "snd (generate_on_data rt p full c t1 t2)"] obtain ks where
    ks: "generate_events rt p (snd (generate_on_data rt p full c t1 t2)) (chunks cs) =
           map (\<lambda>j. Write (Sse j)) ks"
        "\<forall>j\<in>set ks. \<not> terminal j" by blast
  show ?case
    using js ks x by (intro exI [of _ "js @ ks"]) (auto simp: chunks_def)
qed

lemma chat_events_plain:
  "\<forall>x\<in>set cs. \<not> chat_finishes rt (fst x) \<Longrightarrow>
   \<exists>js. chat_events rt full (chunks cs) = map (\<lambda>j. Write (Sse j)) js \<and>
        (\<forall>j\<in>set js. \<not> terminal j)"
proof (induction cs arbitrary: full)
  case Nil
  show ?case by (simp add: chunks_def)
next
  case (Cons x cs)
  obtain c t1 t2 where x: "x = (c, t1, t2)" by (cases x)
  from Cons.prems x have "\<not> chat_finishes rt c" by simp
  from chat_on_data_plain [OF this, of full t1 t2] obtain js where
    js: "fst (chat_on_data rt full c t1 t2) = map (\<lambda>j. Write (Sse j)) js"
        "\<forall>j\<in>set js. \<not> terminal j" by blast
  from Cons.prems have "\<forall>x\<in>set cs. \<not> chat_finishes rt (fst x)" by simp
  from Cons.IH [OF this, of "snd (chat_on_data rt full c t1 t2)"] obtain ks where
    ks: "chat_events rt (snd (chat_on_data rt full c t1 t2)) (chunks cs) =
           map (\<lambda>j. Write (Sse j)) ks"
        "\<forall>j\<in>set ks. \<not> terminal j" by blast
  show ?case
    using js ks x by (intro exI [of _ "js @ ks"]) (auto simp: chunks_def)
qed

lemma generate_events_snoc:
  "generate_events rt p full (chunks (cs @ [(c, t1, t2)])) =
   generate_events rt p full (chunks cs) @
   fst (generate_on_data rt p (full @ concat (map (\<lambda>x. generate_piece rt (fst x)) cs)) c t1 t2)"
proof (induction cs arbitrary: full)
  case Nil
  show ?case by (simp add: chunks_def)
next
  case (Cons x cs)
  obtain d u1 u2 where x: "x = (d, u1, u2)" by (cases x)
  show ?case
    using Cons.IH [of "full @ generate_piece rt d"]
    by (simp add: x chunks_def generate_on_data_state)
qed

lemma chat_events_snoc:
  "chat_events rt full (chunks (cs @ [(c, t1, t2)])) =
   chat_events rt full (chunks cs) @
   fst (chat_on_data rt (full @ concat (map (\<lambda>x. chat_piece rt (fst x)) cs)) c t1 t2)"
proof (induction cs arbitrary: full)
  case Nil
  show ?case by (simp add: chunks_def)
next
  case (Cons x cs)
  obtain d u1 u2 where x: "x = (d, u1, u2)" by (cases x)
  show ?case
    using Cons.IH [of "full @ chat_piece rt d"]
    by (simp add: x chunks_def chat_on_data_state)
qed

lemma asc_nonempty: "asc (c # cs) \<noteq> []"
  by (simp add: asc_def)

lemma not_finishes_delta_chunks:
  "\<not> generate_finishes rt (delta_chunk ''2'')"
  "\<not> generate_finishes rt (delta_chunk ''6'')"
  "\<not> chat_finishes rt (chat_delta_chunk ''6'')"
  by (simp_all add: generate_finishes_def chat_finishes_def starts_with_chunks
        parse_delta_chunks parse_chat_delta_chunk generate_text_delta_event
        chat_content_delta_event finish_marker_events asc_nonempty)


lemma prompt_length: "get (Some (JStr (asc ''2*3=?''))) (asc ''length'') = Some (Some (jnat 5))"
  by (simp add: asc_def eval_nat_numeral)

lemma split_on_no_separator: "d \<notin> set s \<Longrightarrow> split_on d s = [s]"
  by (induction s) auto

lemma split_on_first: "d \<notin> set a \<Longrightarrow> split_on d (a @ d # b) = a # split_on d b"
  by (induction a) auto

lemma template_string_string: "template_string rt (Some (JStr s)) = Some s"
  by (simp add: template_string_def)

lemma dispatch_routes:
  "dispatch rt \<lparr>req_method = POST, req_path = ApiCompletions, req_body = body\<rparr> =
     api_completions rt body"
  "dispatch rt \<lparr>req_method = POST, req_path = ApiChat, req_body = body\<rparr> = api_chat rt body"
  "dispatch rt \<lparr>req_method = POST, req_path = ApiGenerate, req_body = body\<rparr> =
     api_generate rt body"
  by (simp_all add: dispatch_def routes_def)

lemma no_404_in_passthrough: "Status 404 \<notin> set (passthrough e)"
  by (cases e) (simp_all add: stream_error_frame_def)

lemma example_mint:
  "generateToken (example_env\<lparr>reply_stream := r\<rparr>) (JIUTIAN_API_KEY (example_env\<lparr>reply_stream := r\<rparr>)) 3600 =
     Inr example_token"
  "generateToken (example_env\<lparr>reply_json := q\<rparr>) (JIUTIAN_API_KEY (example_env\<lparr>reply_json := q\<rparr>)) 3600 =
     Inr example_token"
  "generateToken example_env (JIUTIAN_API_KEY example_env) 3600 = Inr example_token"
  by (simp_all add: generateToken_def jwt_sign_def example_env_def example_token_def
        asc_def ch_def Let_def)

lemma own_empty: "own [] k = None"
  by (simp add: own_def)

lemma own_scenario_body:
  "own scenario_body (asc ''model'') = Some (JStr (asc ''jiutian-lan''))"
  "own scenario_body (asc ''prompt'') = Some (JStr (asc ''2*3=?''))"
  "own scenario_body (asc ''stream'') = Some (JBool True)"
  "own scenario_body (asc ''options'') = None"
  by (simp_all add: own_def scenario_body_def asc_def ch_def)

lemma own_other_body:
  "own other_body (asc ''stream'') = None"
  "own other_chat_body (asc ''stream'') = Some (JBool True)"
  by (simp_all add: own_def other_body_def other_chat_body_def asc_def ch_def)

lemma summary_frames:
  "summary (generate_frame t r) = (Some r, Some (JBool False), None, None)"
  "summary (generate_final t (Some n) full) =
     (Some (JStr []), Some (JBool True), Some (jnat (length full)), Some n)"
  by (simp_all add: summary_def generate_frame_def generate_final_def obj_def own_def
        asc_def ch_def)

lemma scenario_events:
  "generate_events rt (Some (JStr (asc ''2*3=?''))) []
     [Data (delta_chunk ''2'') t1 u1, Data (delta_chunk ''*'') t2 u2,
      Data (delta_chunk ''3'') t3 u3, Data (delta_chunk ''='') t4 u4,
      Data (delta_chunk ''6'') t5 u5, Data finish_chunk t6 u6] =
   [Write (Sse (generate_frame t1 (JStr (asc ''2'')))),
    Write (Sse (generate_frame t2 (JStr (asc ''*'')))),
    Write (Sse (generate_frame t3 (JStr (asc ''3'')))),
    Write (Sse (generate_frame t4 (JStr (asc ''='')))),
    Write (Sse (generate_frame t5 (JStr (asc ''6'')))),
    Write (Sse (generate_frame t6 (JStr []))),
    Write (Sse (generate_final u6 (Some (jnat 5)) (asc ''2*3=6''))),
    EndWith None]"
  by (simp add: generate_on_data_delta [OF starts_with_chunks(1) parse_delta_chunks(1) asc_nonempty]
        generate_on_data_delta [OF starts_with_chunks(1) parse_delta_chunks(2) asc_nonempty]
        generate_on_data_delta [OF starts_with_chunks(1) parse_delta_chunks(3) asc_nonempty]
        generate_on_data_delta [OF starts_with_chunks(1) parse_delta_chunks(4) asc_nonempty]
        generate_on_data_delta [OF starts_with_chunks(1) parse_delta_chunks(5) asc_nonempty]
        generate_on_data_finish_event [OF starts_with_chunks(3) parse_finish_chunk prompt_length])
     (simp add: asc_def)

lemma scenario_dispatch:
  assumes "generateToken rt (JIUTIAN_API_KEY rt) 3600 = Inr tok"
    and "reply_stream rt = Inr evs"
  shows "dispatch rt \<lparr>req_method = POST, req_path = ApiGenerate, req_body = scenario_body\<rparr> =
         sse_headers @
         [UpstreamPost completions_url
            (JObj
               [(asc ''model'', JStr (asc ''jiutian-lan'')),
                (asc ''prompt'', JStr (asc ''2*3=?'')),
                (asc ''temperature'', JNum (Dec False 7 (- 1))),
                (asc ''top_p'', JNum (Dec False 9 (- 1))),
                (asc ''history'', JArr []),
                (asc ''stream'', JBool True)])
            tok True] @
         generate_events rt (Some (JStr (asc ''2*3=?''))) [] evs"
  using assms
  by (simp add: dispatch_routes api_generate_def own_scenario_body default_to_def own_empty
        or_else_def obj_def Let_def)

lemma scenario_summary:
  assumes "generateToken rt (JIUTIAN_API_KEY rt) 3600 = Inr tok"
    and "reply_stream rt =
           Inr [Data (delta_chunk ''2'') t1 u1, Data (delta_chunk ''*'') t2 u2,
                Data (delta_chunk ''3'') t3 u3, Data (delta_chunk ''='') t4 u4,
                Data (delta_chunk ''6'') t5 u5, Data finish_chunk t6 u6]"
  shows "map summary (frames
           (dispatch rt \<lparr>req_method = POST, req_path = ApiGenerate, req_body = scenario_body\<rparr>)) =
         [(Some (JStr (asc ''2'')), Some (JBool False), None, None),
          (Some (JStr (asc ''*'')), Some (JBool False), None, None),
          (Some (JStr (asc ''3'')), Some (JBool False), None, None),
          (Some (JStr (asc ''='')), Some (JBool False), None, None),
          (Some (JStr (asc ''6'')), Some (JBool False), None, None),
          (Some (JStr []), Some (JBool False), None, None),
          (Some (JStr []), Some (JBool True), Some (jnat 5), Some (jnat 5))]"
proof -
  have "length (asc ''2*3=6'') = 5"
    by (simp add: asc_def)
  then show ?thesis
    unfolding scenario_dispatch [OF assms] scenario_events
    by (simp add: sse_headers_def summary_frames)
qed


lemma example_mint_updated:
  "generateToken (example_env\<lparr>reply_stream := r\<rparr>) (JIUTIAN_API_KEY example_env) 3600 =
     Inr example_token"
  "generateToken (example_env\<lparr>reply_json := q\<rparr>) (JIUTIAN_API_KEY example_env) 3600 =
     Inr example_token"
  by (simp_all add: generateToken_def jwt_sign_def example_env_def example_token_def
        asc_def ch_def Let_def)

lemma example_env_fields:
  "NODE_ENV (example_env\<lparr>JIUTIAN_API_KEY := None\<rparr>) = Some (asc ''production'')"
  "reply_stream (example_env\<lparr>reply_stream := r\<rparr>) = r"
  "reply_json (example_env\<lparr>reply_json := q\<rparr>) = q"
  "NODE_ENV (example_env\<lparr>reply_json := q\<rparr>) = Some (asc ''production'')"
  by (simp_all add: example_env_def)

lemma one_shot_failures:
  assumes "own body (asc ''stream'') \<noteq> Some (JBool True)"
  shows "generateToken rt (JIUTIAN_API_KEY rt) 3600 = Inl e \<Longrightarrow>
           api_completions rt body = call_failed rt e \<and> api_chat rt body = call_failed rt e"
    and "generateToken rt (JIUTIAN_API_KEY rt) 3600 = Inr tok \<Longrightarrow> reply_json rt = Inl e \<Longrightarrow>
           api_completions rt body =
             UpstreamPost completions_url (JObj body) tok False # call_failed rt e \<and>
           api_chat rt body = UpstreamPost chat_url (JObj body) tok False # call_failed rt e"
  using assms by (simp_all add: api_completions_def api_chat_def)

lemma streaming_failures:
  assumes "own body (asc ''stream'') = Some (JBool True)"
  shows "generateToken rt (JIUTIAN_API_KEY rt) 3600 = Inl e \<Longrightarrow>
           api_completions rt body = stream_call_failed e \<and>
           api_chat rt body = stream_call_failed e"
    and "generateToken rt (JIUTIAN_API_KEY rt) 3600 = Inr tok \<Longrightarrow> reply_stream rt = Inl e \<Longrightarrow>
           api_completions rt body =
             sse_headers @ UpstreamPost completions_url (JObj body) tok True # stream_call_failed e \<and>
           api_chat rt body =
             sse_headers @ UpstreamPost chat_url (JObj body) tok True # stream_call_failed e"
    and "generateToken rt (JIUTIAN_API_KEY rt) 3600 = Inr tok \<Longrightarrow>
         reply_stream rt = Inr (evs @ [StreamError e]) \<Longrightarrow>
           api_completions rt body =
             sse_headers @ UpstreamPost completions_url (JObj body) tok True #
             concat (map passthrough evs) @ [stream_error_frame] \<and>
           api_chat rt body =
             sse_headers @ UpstreamPost chat_url (JObj body) tok True #
             concat (map passthrough evs) @ [stream_error_frame]"
  using assms
  by (simp_all add: api_completions_def api_chat_def handleStreamCompletions_def
        handleStreamChat_def)

lemma call_failed_body:
  "call_failed rt e =
     [Status 500,
      SendJson (JObj
        ([(asc ''error'', JStr msg_call_failed), (asc ''detail'', JStr (message e))] @
         (if NODE_ENV rt = Some (asc ''development'') then [(asc ''stack'', JStr (stack e))]
          else [])))]"
  by (simp add: call_failed_def obj_def)

lemma get_defined: "v \<noteq> JNull \<Longrightarrow> get (Some v) k \<noteq> None"
  by (cases v) simp_all

lemma generate_mint_failure:
  assumes "own body (asc ''model'') = Some (JStr (asc ''jiutian-lan''))"
    and "own body (asc ''options'') \<noteq> Some JNull"
    and "generateToken rt (JIUTIAN_API_KEY rt) 3600 = Inl e"
  shows "api_generate rt body =
         [Status 500,
          SendJson (JObj
            [(asc ''error'', JStr msg_generate_failed), (asc ''detail'', JStr (message e))])]"
proof -
  have "default_to (own body (asc ''options'')) (JObj []) \<noteq> JNull"
    using assms(2) by (auto simp: default_to_def split: option.splits)
  then obtain a b where
    "get (Some (default_to (own body (asc ''options'')) (JObj []))) (asc ''temperature'') = Some a"
    "get (Some (default_to (own body (asc ''options'')) (JObj []))) (asc ''top_p'') = Some b"
    using get_defined by blast
  then show ?thesis
    using assms(1,3) by (simp add: api_generate_def Let_def generate_failed_def)
qed

lemma development_env_facts:
  "generateToken development_env (JIUTIAN_API_KEY development_env) 3600 =
     Inl \<lparr>message = msg_invalid_key, stack = asc ''Error''\<rparr>"
  "NODE_ENV development_env = Some (asc ''development'')"
  by (simp_all add: development_env_def generateToken_def new_Error_def example_env_def)

lemma no_key_facts:
  "generateToken (example_env\<lparr>JIUTIAN_API_KEY := None\<rparr>)
     (JIUTIAN_API_KEY (example_env\<lparr>JIUTIAN_API_KEY := None\<rparr>)) 3600 =
     Inl \<lparr>message = msg_invalid_key, stack = asc ''Error''\<rparr>"
  "NODE_ENV (example_env\<lparr>JIUTIAN_API_KEY := None\<rparr>) \<noteq> Some (asc ''development'')"
  by (simp_all add: generateToken_def new_Error_def example_env_def asc_def ch_def)

text \<open>
  When the last chunk is the only one on which the listener reaches its finish branch,
  the calls on the response are writes of frames that are not terminal, then the write
  of one terminal frame, then \<open>end\<close>: for \<open>/api/generate\<close> provided the prompt has a
  \<open>length\<close> to read (it is neither missing nor \<open>null\<close>), for the second \<open>/api/chat\<close>
  always.
\<close>

lemma finish_chunk_closes_the_stream:
  "((\<forall>x\<in>set cs. \<not> generate_finishes rt (fst x)) \<and> generate_finishes rt c \<and>
    get prompt (asc ''length'') = Some n \<longrightarrow>
    (\<exists>pre fin. generate_events rt prompt [] (chunks (cs @ [(c, t1, t2)])) =
        map (\<lambda>j. Write (Sse j)) pre @ [Write (Sse fin), EndWith None] \<and>
        (\<forall>j\<in>set pre. \<not> terminal j) \<and> terminal fin)) \<and>
   ((\<forall>x\<in>set cs. \<not> chat_finishes rt (fst x)) \<and> chat_finishes rt c \<longrightarrow>
    (\<exists>pre fin. chat_events rt [] (chunks (cs @ [(c, t1, t2)])) =
        map (\<lambda>j. Write (Sse j)) pre @ [Write (Sse fin), EndWith None] \<and>
        (\<forall>j\<in>set pre. \<not> terminal j) \<and> terminal fin))"
proof (intro conjI impI)
  assume h: "(\<forall>x\<in>set cs. \<not> generate_finishes rt (fst x)) \<and> generate_finishes rt c \<and>
    get prompt (asc ''length'') = Some n"
  let ?full = "[] @ concat (map (\<lambda>x. generate_piece rt (fst x)) cs)"
  from h generate_events_plain [of cs rt prompt "[]"] obtain js where
    js: "generate_events rt prompt [] (chunks cs) = map (\<lambda>j. Write (Sse j)) js"
        "\<forall>j\<in>set js. \<not> terminal j" by blast
  from h generate_on_data_finish [of rt c prompt n ?full t1 t2] obtain r where
    r: "fst (generate_on_data rt prompt ?full c t1 t2) =
         [Write (Sse (generate_frame t1 r)),
          Write (Sse (generate_final t2 n (?full @ generate_piece rt c))),
          EndWith None]" by blast
  show "\<exists>pre fin. generate_events rt prompt [] (chunks (cs @ [(c, t1, t2)])) =
        map (\<lambda>j. Write (Sse j)) pre @ [Write (Sse fin), EndWith None] \<and>
        (\<forall>j\<in>set pre. \<not> terminal j) \<and> terminal fin"
    using js r
    by (intro exI [of _ "js @ [generate_frame t1 r]"]
          exI [of _ "generate_final t2 n (?full @ generate_piece rt c)"])
       (simp add: generate_events_snoc generate_frame_not_terminal generate_final_terminal)
next
  assume h: "(\<forall>x\<in>set cs. \<not> chat_finishes rt (fst x)) \<and> chat_finishes rt c"
  let ?full = "[] @ concat (map (\<lambda>x. chat_piece rt (fst x)) cs)"
  from h chat_events_plain [of cs rt "[]"] obtain js where
    js: "chat_events rt [] (chunks cs) = map (\<lambda>j. Write (Sse j)) js"
        "\<forall>j\<in>set js. \<not> terminal j" by blast
  from h chat_on_data_finish [of rt c ?full t1 t2] obtain r where
    r: "fst (chat_on_data rt ?full c t1 t2) =
         [Write (Sse (chat_frame t1 r)),
          Write (Sse (chat_final t2 (?full @ chat_piece rt c))),
          EndWith None]" by blast
  show "\<exists>pre fin. chat_events rt [] (chunks (cs @ [(c, t1, t2)])) =
        map (\<lambda>j. Write (Sse j)) pre @ [Write (Sse fin), EndWith None] \<and>
        (\<forall>j\<in>set pre. \<not> terminal j) \<and> terminal fin"
    using js r
    by (intro exI [of _ "js @ [chat_frame t1 r]"]
          exI [of _ "chat_final t2 (?full @ chat_piece rt c)"])
       (simp add: chat_events_snoc chat_frame_not_terminal chat_final_terminal)
qed

lemma own_no_prompt_body:
  "own no_prompt_body (asc ''model'') = Some (JStr (asc ''jiutian-lan''))"
  "own no_prompt_body (asc ''prompt'') = None"
  "own no_prompt_body (asc ''stream'') = Some (JBool True)"
  "own no_prompt_body (asc ''options'') = None"
  by (simp_all add: own_def no_prompt_body_def asc_def ch_def)

lemma generate_on_data_finish_without_prompt:
  assumes "starts_with c (asc ''data: '')" and "JSON_parse (drop 6 c) = Some finish_event"
  shows "generate_on_data rt None full c t1 t2 =
         ([Write (Sse (generate_frame t1 (JStr [])))], full)"
  using assms
  by (simp add: generate_on_data_def generate_text_finish_event finish_marker_events
        appended_def default_to_def)

lemma no_prompt_events:
  "generate_events rt None []
     [Data (delta_chunk ''6'') t1 u1, Data finish_chunk t2 u2, StreamEnd] =
   [Write (Sse (generate_frame t1 (JStr (asc ''6'')))),
    Write (Sse (generate_frame t2 (JStr [])))]"
  by (simp add: generate_on_data_delta [OF starts_with_chunks(1) parse_delta_chunks(5) asc_nonempty]
        generate_on_data_finish_without_prompt [OF starts_with_chunks(3) parse_finish_chunk])

lemma no_prompt_dispatch:
  assumes "generateToken rt (JIUTIAN_API_KEY rt) 3600 = Inr tok"
    and "reply_stream rt = Inr evs"
  shows "dispatch rt \<lparr>req_method = POST, req_path = ApiGenerate, req_body = no_prompt_body\<rparr> =
         sse_headers @
         [UpstreamPost completions_url
            (JObj
               [(asc ''model'', JStr (asc ''jiutian-lan'')),
                (asc ''temperature'', JNum (Dec False 7 (- 1))),
                (asc ''top_p'', JNum (Dec False 9 (- 1))),
                (asc ''history'', JArr []),
                (asc ''stream'', JBool True)])
            tok True] @
         generate_events rt None [] evs"
  using assms
  by (simp add: dispatch_routes api_generate_def own_no_prompt_body default_to_def own_empty
        or_else_def obj_def Let_def)

section \<open>The claims\<close>

text \<open>
  C1 (as amended).  In the scenario (streaming POST \<open>/api/generate\<close>, model
  \<open>jiutian-lan\<close>, prompt \<open>2*3=?\<close>; the upstream delivers five text deltas \<open>2\<close>,
  \<open>*\<close>, \<open>3\<close>, \<open>=\<close>, \<open>6\<close> and then the delta with the finish status) the client
  is sent five frames \<open>{response: <char>, done: false}\<close>, then one frame
  \<open>{response: "", done: false}\<close> for the finish delta itself, then one terminal frame
  \<open>{response: "", done: true, eval_count: 5, prompt_eval_count: 5}\<close> (the prompt has
  five characters), and the response is ended; nothing else is written.
\<close>

theorem C1_scenario_frames:
  assumes "generateToken rt (JIUTIAN_API_KEY rt) 3600 = Inr tok"
    and "reply_stream rt =
           Inr [Data (delta_chunk ''2'') t1 u1, Data (delta_chunk ''*'') t2 u2,
                Data (delta_chunk ''3'') t3 u3, Data (delta_chunk ''='') t4 u4,
                Data (delta_chunk ''6'') t5 u5, Data finish_chunk t6 u6]"
  shows "dispatch rt \<lparr>req_method = POST, req_path = ApiGenerate, req_body = scenario_body\<rparr> =
         sse_headers @
         [UpstreamPost completions_url
            (JObj
               [(asc ''model'', JStr (asc ''jiutian-lan'')),
                (asc ''prompt'', JStr (asc ''2*3=?'')),
                (asc ''temperature'', JNum (Dec False 7 (- 1))),
                (asc ''top_p'', JNum (Dec False 9 (- 1))),
                (asc ''history'', JArr []),
                (asc ''stream'', JBool True)])
            tok True,
          Write (Sse (generate_frame t1 (JStr (asc ''2'')))),
          Write (Sse (generate_frame t2 (JStr (asc ''*'')))),
          Write (Sse (generate_frame t3 (JStr (asc ''3'')))),
          Write (Sse (generate_frame t4 (JStr (asc ''='')))),
          Write (Sse (generate_frame t5 (JStr (asc ''6'')))),
          Write (Sse (generate_frame t6 (JStr []))),
          Write (Sse (generate_final u6 (Some (jnat 5)) (asc ''2*3=6''))),
          EndWith None] \<and>
         map summary (frames
           (dispatch rt \<lparr>req_method = POST, req_path = ApiGenerate, req_body = scenario_body\<rparr>)) =
         [(Some (JStr (asc ''2'')), Some (JBool False), None, None),
          (Some (JStr (asc ''*'')), Some (JBool False), None, None),
          (Some (JStr (asc ''3'')), Some (JBool False), None, None),
          (Some (JStr (asc ''='')), Some (JBool False), None, None),
          (Some (JStr (asc ''6'')), Some (JBool False), None, None),
          (Some (JStr []), Some (JBool False), None, None),
          (Some (JStr []), Some (JBool True), Some (jnat 5), Some (jnat 5))]"
  using scenario_dispatch [OF assms] scenario_summary [OF assms]
  by (simp only: scenario_events append_Cons append_Nil simp_thms)

theorem C1_witness:
  "generateToken (example_env\<lparr>reply_stream := Inr scenario_stream\<rparr>)
     (JIUTIAN_API_KEY (example_env\<lparr>reply_stream := Inr scenario_stream\<rparr>)) 3600 =
     Inr example_token \<and>
   reply_stream (example_env\<lparr>reply_stream := Inr scenario_stream\<rparr>) =
     Inr [Data (delta_chunk ''2'') (asc ''t1'') (asc ''u1''),
          Data (delta_chunk ''*'') (asc ''t2'') (asc ''u2''),
          Data (delta_chunk ''3'') (asc ''t3'') (asc ''u3''),
          Data (delta_chunk ''='') (asc ''t4'') (asc ''u4''),
          Data (delta_chunk ''6'') (asc ''t5'') (asc ''u5''),
          Data finish_chunk (asc ''t6'') (asc ''u6'')] \<and>
   map summary (frames
     (dispatch (example_env\<lparr>reply_stream := Inr scenario_stream\<rparr>)
        \<lparr>req_method = POST, req_path = ApiGenerate, req_body = scenario_body\<rparr>)) =
     [(Some (JStr (asc ''2'')), Some (JBool False), None, None),
      (Some (JStr (asc ''*'')), Some (JBool False), None, None),
      (Some (JStr (asc ''3'')), Some (JBool False), None, None),
      (Some (JStr (asc ''='')), Some (JBool False), None, None),
      (Some (JStr (asc ''6'')), Some (JBool False), None, None),
      (Some (JStr []), Some (JBool False), None, None),
      (Some (JStr []), Some (JBool True), Some (jnat 5), Some (jnat 5))]"
proof -
  have a: "generateToken (example_env\<lparr>reply_stream := Inr scenario_stream\<rparr>)
     (JIUTIAN_API_KEY (example_env\<lparr>reply_stream := Inr scenario_stream\<rparr>)) 3600 =
     Inr example_token"
    by (rule example_mint)
  have b: "reply_stream (example_env\<lparr>reply_stream := Inr scenario_stream\<rparr>) =
     Inr [Data (delta_chunk ''2'') (asc ''t1'') (asc ''u1''),
          Data (delta_chunk ''*'') (asc ''t2'') (asc ''u2''),
          Data (delta_chunk ''3'') (asc ''t3'') (asc ''u3''),
          Data (delta_chunk ''='') (asc ''t4'') (asc ''u4''),
          Data (delta_chunk ''6'') (asc ''t5'') (asc ''u5''),
          Data finish_chunk (asc ''t6'') (asc ''u6'')]"
    by (simp add: scenario_stream_def chunks_def)
  show ?thesis
    using C1_scenario_frames [OF a b] a b by blast
qed

theorem C1_counterexample:
  "map summary (frames
     (dispatch (example_env\<lparr>reply_stream := Inr scenario_stream\<rparr>)
        \<lparr>req_method = POST, req_path = ApiGenerate, req_body = scenario_body\<rparr>)) \<noteq>
     [(Some (JStr (asc ''2'')), Some (JBool False), None, None),
      (Some (JStr (asc ''*'')), Some (JBool False), None, None),
      (Some (JStr (asc ''3'')), Some (JBool False), None, None),
      (Some (JStr (asc ''='')), Some (JBool False), None, None),
      (Some (JStr (asc ''6'')), Some (JBool False), None, None),
      (Some (JStr []), Some (JBool True), Some (jnat 5), Some (jnat 9))]"
proof -
  have a: "generateToken (example_env\<lparr>reply_stream := Inr scenario_stream\<rparr>)
     (JIUTIAN_API_KEY (example_env\<lparr>reply_stream := Inr scenario_stream\<rparr>)) 3600 =
     Inr example_token"
    by (rule example_mint)
  have b: "reply_stream (example_env\<lparr>reply_stream := Inr scenario_stream\<rparr>) =
     Inr [Data (delta_chunk ''2'') (asc ''t1'') (asc ''u1''),
          Data (delta_chunk ''*'') (asc ''t2'') (asc ''u2''),
          Data (delta_chunk ''3'') (asc ''t3'') (asc ''u3''),
          Data (delta_chunk ''='') (asc ''t4'') (asc ''u4''),
          Data (delta_chunk ''6'') (asc ''t5'') (asc ''u5''),
          Data finish_chunk (asc ''t6'') (asc ''u6'')]"
    by (simp add: scenario_stream_def chunks_def)
  show ?thesis
    unfolding scenario_summary [OF a b] by simp
qed

text \<open>
  C2.  A streaming session whose upstream chunks end in exactly one finish marker should
  emit exactly one terminal frame, as the last frame.  The finish branch of the
  \<open>data\<close> listener of \<open>/api/generate\<close> reads \<open>prompt.length\<close> while it builds the
  terminal frame; for a request without a prompt that read throws, the listener's
  \<open>catch\<close> swallows it, and neither the terminal frame nor \<open>end\<close> follows.  The trace
  of such a session, with one text delta, the finish delta and the end of the upstream
  stream: two frames that are not terminal, and the response is left open.
\<close>

theorem C2_no_terminal_frame_without_a_prompt:
  "dispatch
     (example_env\<lparr>reply_stream :=
        Inr [Data (delta_chunk ''6'') (asc ''t1'') (asc ''u1''),
             Data finish_chunk (asc ''t2'') (asc ''u2''),
             StreamEnd]\<rparr>)
     \<lparr>req_method = POST, req_path = ApiGenerate, req_body = no_prompt_body\<rparr> =
   sse_headers @
   [UpstreamPost completions_url
      (JObj
         [(asc ''model'', JStr (asc ''jiutian-lan'')),
          (asc ''temperature'', JNum (Dec False 7 (- 1))),
          (asc ''top_p'', JNum (Dec False 9 (- 1))),
          (asc ''history'', JArr []),
          (asc ''stream'', JBool True)])
      example_token True,
    Write (Sse (generate_frame (asc ''t1'') (JStr (asc ''6'')))),
    Write (Sse (generate_frame (asc ''t2'') (JStr [])))] \<and>
   filter terminal
     (frames
        (dispatch
           (example_env\<lparr>reply_stream :=
              Inr [Data (delta_chunk ''6'') (asc ''t1'') (asc ''u1''),
                   Data finish_chunk (asc ''t2'') (asc ''u2''),
                   StreamEnd]\<rparr>)
           \<lparr>req_method = POST, req_path = ApiGenerate, req_body = no_prompt_body\<rparr>)) = [] \<and>
   EndWith None \<notin> set
     (dispatch
        (example_env\<lparr>reply_stream :=
           Inr [Data (delta_chunk ''6'') (asc ''t1'') (asc ''u1''),
                Data finish_chunk (asc ''t2'') (asc ''u2''),
                StreamEnd]\<rparr>)
        \<lparr>req_method = POST, req_path = ApiGenerate, req_body = no_prompt_body\<rparr>)"
proof -
  have trace: "dispatch
     (example_env\<lparr>reply_stream :=
        Inr [Data (delta_chunk ''6'') (asc ''t1'') (asc ''u1''),
             Data finish_chunk (asc ''t2'') (asc ''u2''),
             StreamEnd]\<rparr>)
     \<lparr>req_method = POST, req_path = ApiGenerate, req_body = no_prompt_body\<rparr> =
   sse_headers @
   [UpstreamPost completions_url
      (JObj
         [(asc ''model'', JStr (asc ''jiutian-lan'')),
          (asc ''temperature'', JNum (Dec False 7 (- 1))),
          (asc ''top_p'', JNum (Dec False 9 (- 1))),
          (asc ''history'', JArr []),
          (asc ''stream'', JBool True)])
      example_token True,
    Write (Sse (generate_frame (asc ''t1'') (JStr (asc ''6'')))),
    Write (Sse (generate_frame (asc ''t2'') (JStr [])))]"
    unfolding no_prompt_dispatch [OF example_mint(1) example_env_fields(2)] no_prompt_events
    by simp
  show ?thesis
    unfolding trace
    by (simp add: sse_headers_def generate_frame_not_terminal)
qed



text \<open>
  C4.  A request to POST \<open>/api/generate\<close> whose model is not \<open>jiutian-lan\<close> is
  answered at once with status 404 and a JSON body whose \<open>error\<close> message names the
  requested model and \<open>jiutian-lan\<close>; the handler makes no upstream call, sets no
  stream header and writes no frame.  The requested model enters the message as the
  template literal prints it (a string as itself).
\<close>

theorem C4_unsupported_model_is_rejected_before_any_upstream_call:
  assumes "own body (asc ''model'') \<noteq> Some (JStr (asc ''jiutian-lan''))"
    and "template_string rt (own body (asc ''model'')) = Some m"
  shows "dispatch rt \<lparr>req_method = POST, req_path = ApiGenerate, req_body = body\<rparr> =
           [Status 404,
            SendJson (JObj [(asc ''error'', JStr
              ([0x6a21, 0x578b, 32, 39] @ m @
               [39, 32, 0x4e0d, 0x5b58, 0x5728, 0xff0c, 0x8bf7, 0x4f7f, 0x7528, 32, 39] @
               asc ''jiutian-lan'' @ [39]))])] \<and>
         upstream_calls
           (dispatch rt \<lparr>req_method = POST, req_path = ApiGenerate, req_body = body\<rparr>) = [] \<and>
         (\<forall>s. own body (asc ''model'') = Some (JStr s) \<longrightarrow> m = s)"
  using assms
  by (auto simp: dispatch_routes api_generate_def Let_def model_not_found_def
        msg_model_not_found_def upstream_calls_def template_string_string)

theorem C4_witness:
  "own [(asc ''model'', JStr (asc ''other-model'')), (asc ''prompt'', JStr (asc ''x''))]
     (asc ''model'') \<noteq> Some (JStr (asc ''jiutian-lan'')) \<and>
   template_string example_env
     (own [(asc ''model'', JStr (asc ''other-model'')), (asc ''prompt'', JStr (asc ''x''))]
        (asc ''model'')) = Some (asc ''other-model'') \<and>
   dispatch example_env
     \<lparr>req_method = POST, req_path = ApiGenerate,
      req_body = [(asc ''model'', JStr (asc ''other-model'')), (asc ''prompt'', JStr (asc ''x''))]\<rparr> =
     [Status 404,
      SendJson (JObj [(asc ''error'', JStr
        ([0x6a21, 0x578b, 32, 39] @ asc ''other-model'' @
         [39, 32, 0x4e0d, 0x5b58, 0x5728, 0xff0c, 0x8bf7, 0x4f7f, 0x7528, 32, 39] @
         asc ''jiutian-lan'' @ [39]))])] \<and>
   upstream_calls
     (dispatch example_env
        \<lparr>req_method = POST, req_path = ApiGenerate,
         req_body = [(asc ''model'', JStr (asc ''other-model'')),
                     (asc ''prompt'', JStr (asc ''x''))]\<rparr>) = []"
proof -
  have m: "own [(asc ''model'', JStr (asc ''other-model'')), (asc ''prompt'', JStr (asc ''x''))]
      (asc ''model'') = Some (JStr (asc ''other-model''))"
    by (simp add: own_def asc_def ch_def)
  have a: "own [(asc ''model'', JStr (asc ''other-model'')), (asc ''prompt'', JStr (asc ''x''))]
      (asc ''model'') \<noteq> Some (JStr (asc ''jiutian-lan''))"
    by (simp add: m) (simp add: asc_def ch_def)
  have b: "template_string example_env
     (own [(asc ''model'', JStr (asc ''other-model'')), (asc ''prompt'', JStr (asc ''x''))]
        (asc ''model'')) = Some (asc ''other-model'')"
    by (simp add: m template_string_string)
  show ?thesis
    using C4_unsupported_model_is_rejected_before_any_upstream_call [OF a b] a b
    by blast
qed

text \<open>
  C5.  A streaming POST \<open>/api/chat\<close> that names another model should be answered 404
  by the model-gated handler with its chat frames.  The program registers that handler
  second for the same method and path, so the request is served by the first one: no
  model check, an upstream call with the body as it came, and the upstream chunks handed
  on unchanged.  The trace of such a request:
\<close>

theorem C5_streaming_chat_request_reaches_the_first_handler:
  "dispatch (example_env\<lparr>reply_stream := Inr (scenario_stream @ [StreamEnd])\<rparr>)
     \<lparr>req_method = POST, req_path = ApiChat, req_body = other_chat_body\<rparr> =
   sse_headers @
   [UpstreamPost chat_url (JObj other_chat_body) example_token True,
    Write (Raw (delta_chunk ''2'')),
    Write (Raw (delta_chunk ''*'')),
    Write (Raw (delta_chunk ''3'')),
    Write (Raw (delta_chunk ''='')),
    Write (Raw (delta_chunk ''6'')),
    Write (Raw finish_chunk),
    EndWith None]"
  by (simp add: dispatch_routes api_chat_def own_other_body handleStreamChat_def
        example_mint_updated scenario_stream_def chunks_def)




text \<open>
  C7.  A single malformed upstream frame does not end a streaming session.  A chunk that
  begins with \<open>data: \<close> and whose JSON does not parse makes the \<open>data\<close> listener of
  \<open>/api/generate\<close> and of the second \<open>/api/chat\<close> write nothing and keep the accumulated
  text; the session then runs on every other chunk exactly as if the malformed one had
  never arrived, so each later well-formed frame is decoded and delivered and the
  terminal frame is reached as before.
\<close>

theorem C7_malformed_frame_is_dropped:
  assumes "starts_with bad (asc ''data: '')" and "JSON_parse (drop 6 bad) = None"
  shows "generate_on_data rt prompt full bad t1 t2 = ([], full) \<and>
         chat_on_data rt full bad t1 t2 = ([], full) \<and>
         generate_events rt prompt full (xs @ Data bad t1 t2 # ys) =
           generate_events rt prompt full (xs @ ys) \<and>
         chat_events rt full (xs @ Data bad t1 t2 # ys) = chat_events rt full (xs @ ys)"
  using assms
  by (simp add: generate_on_data_malformed chat_on_data_malformed
        generate_events_drop chat_events_drop)

theorem C7_witness:
  "starts_with broken_chunk (asc ''data: '') \<and>
   JSON_parse (drop 6 broken_chunk) = None \<and>
   generate_events example_env (Some (JStr (asc ''2*3=?''))) []
     ([Data (delta_chunk ''2'') (asc ''t1'') (asc ''u1'')] @
      Data broken_chunk (asc ''t2'') (asc ''u2'') #
      [Data (delta_chunk ''6'') (asc ''t3'') (asc ''u3''),
       Data finish_chunk (asc ''t4'') (asc ''u4'')]) =
   [Write (Sse (generate_frame (asc ''t1'') (JStr (asc ''2'')))),
    Write (Sse (generate_frame (asc ''t3'') (JStr (asc ''6'')))),
    Write (Sse (generate_frame (asc ''t4'') (JStr []))),
    Write (Sse (generate_final (asc ''u4'') (Some (jnat 5)) (asc ''26''))),
    EndWith None]"
proof -
  have a: "starts_with broken_chunk (asc ''data: '')"
    by (rule starts_with_chunks)
  have b: "JSON_parse (drop 6 broken_chunk) = None"
    by (rule parse_broken_chunk)
  have nonempty: "asc ''2'' \<noteq> []" "asc ''6'' \<noteq> []"
    by (simp_all add: asc_def)
  have len: "get (Some (JStr (asc ''2*3=?''))) (asc ''length'') = Some (Some (jnat 5))"
    by (simp add: asc_def eval_nat_numeral)
  from C7_malformed_frame_is_dropped [OF a b, of example_env
      "Some (JStr (asc ''2*3=?''))" "[]" "asc ''t2''" "asc ''u2''"
      "[Data (delta_chunk ''2'') (asc ''t1'') (asc ''u1'')]"
      "[Data (delta_chunk ''6'') (asc ''t3'') (asc ''u3''),
        Data finish_chunk (asc ''t4'') (asc ''u4'')]"]
  have "generate_events example_env (Some (JStr (asc ''2*3=?''))) []
     ([Data (delta_chunk ''2'') (asc ''t1'') (asc ''u1'')] @
      Data broken_chunk (asc ''t2'') (asc ''u2'') #
      [Data (delta_chunk ''6'') (asc ''t3'') (asc ''u3''),
       Data finish_chunk (asc ''t4'') (asc ''u4'')]) =
     generate_events example_env (Some (JStr (asc ''2*3=?''))) []
     ([Data (delta_chunk ''2'') (asc ''t1'') (asc ''u1'')] @
      [Data (delta_chunk ''6'') (asc ''t3'') (asc ''u3''),
       Data finish_chunk (asc ''t4'') (asc ''u4'')])"
    by blast
  also have "\<dots> =
     [Write (Sse (generate_frame (asc ''t1'') (JStr (asc ''2'')))),
      Write (Sse (generate_frame (asc ''t3'') (JStr (asc ''6'')))),
      Write (Sse (generate_frame (asc ''t4'') (JStr []))),
      Write (Sse (generate_final (asc ''u4'') (Some (jnat 5)) (asc ''26''))),
      EndWith None]"
    by (simp add: generate_on_data_delta [OF starts_with_chunks(1) parse_delta_chunks(1) nonempty(1)]
          generate_on_data_delta [OF starts_with_chunks(1) parse_delta_chunks(5) nonempty(2)]
          generate_on_data_finish_event [OF starts_with_chunks(3) parse_finish_chunk len])
       (simp add: asc_def)
  finally show ?thesis
    using a b by blast
qed

text \<open>
  C8.  For a secret \<open>ident.key\<close> (no dot in either part, \<open>key\<close> not empty) and every
  lifetime, \<open>generateToken\<close> returns a token of three parts: the header with
  \<open>alg: HS256\<close>, \<open>typ: JWT\<close> and \<open>sign_type: SIGN\<close>; the payload with \<open>api_key\<close>
  the identifier, \<open>exp\<close> the clock reading (in seconds) plus the lifetime, and the
  issuance \<open>timestamp\<close> (the library adds \<open>iat\<close>); and the HMAC-SHA256 signature of
  both under \<open>key\<close>.  Minting fails when the secret has no dot, when nothing
  follows the dot, and when no secret is configured.
\<close>

theorem C8_minted_token:
  "(ch CHR ''.'' \<notin> set ident \<and> ch CHR ''.'' \<notin> set key \<and> key \<noteq> [] \<longrightarrow>
    generateToken rt (Some (ident @ ch CHR ''.'' # key)) lifetime =
      Inr (Jwt
        [(asc ''alg'', JStr (asc ''HS256'')),
         (asc ''typ'', JStr (asc ''JWT'')),
         (asc ''sign_type'', JStr (asc ''SIGN''))]
        [(asc ''api_key'', JStr ident),
         (asc ''exp'', jint (Date_now rt 0 div 1000 + lifetime)),
         (asc ''timestamp'', jint (Date_now rt 1 div 1000)),
         (asc ''iat'', jint (Date_now rt 2 div 1000))]
        (HMAC_SHA256 key
           [(asc ''alg'', JStr (asc ''HS256'')),
            (asc ''typ'', JStr (asc ''JWT'')),
            (asc ''sign_type'', JStr (asc ''SIGN''))]
           [(asc ''api_key'', JStr ident),
            (asc ''exp'', jint (Date_now rt 0 div 1000 + lifetime)),
            (asc ''timestamp'', jint (Date_now rt 1 div 1000)),
            (asc ''iat'', jint (Date_now rt 2 div 1000))]))) \<and>
   (ch CHR ''.'' \<notin> set s \<longrightarrow>
    generateToken rt (Some s) lifetime = Inl (new_Error rt msg_invalid_key)) \<and>
   (ch CHR ''.'' \<notin> set ident \<longrightarrow>
    generateToken rt (Some (ident @ [ch CHR ''.''])) lifetime =
      Inl (new_Error rt msg_invalid_key)) \<and>
   generateToken rt None lifetime = Inl (new_Error rt msg_invalid_key)"
  by (simp add: generateToken_def jwt_sign_def split_on_no_separator split_on_first Let_def
        split: list.splits)

theorem C8_witness:
  "ch CHR ''.'' \<notin> set (asc ''key-id'') \<and> ch CHR ''.'' \<notin> set (asc ''signing-key'') \<and>
   asc ''signing-key'' \<noteq> [] \<and>
   generateToken example_env (Some (asc ''key-id'' @ ch CHR ''.'' # asc ''signing-key'')) 3600 =
      Inr (Jwt
        [(asc ''alg'', JStr (asc ''HS256'')),
         (asc ''typ'', JStr (asc ''JWT'')),
         (asc ''sign_type'', JStr (asc ''SIGN''))]
        [(asc ''api_key'', JStr (asc ''key-id'')),
         (asc ''exp'', jint 1725506348),
         (asc ''timestamp'', jint 1725502748),
         (asc ''iat'', jint 1725502748)]
        (HMAC_SHA256 (asc ''signing-key'')
           [(asc ''alg'', JStr (asc ''HS256'')),
            (asc ''typ'', JStr (asc ''JWT'')),
            (asc ''sign_type'', JStr (asc ''SIGN''))]
           [(asc ''api_key'', JStr (asc ''key-id'')),
            (asc ''exp'', jint 1725506348),
            (asc ''timestamp'', jint 1725502748),
            (asc ''iat'', jint 1725502748)])) \<and>
   ch CHR ''.'' \<notin> set (asc ''no-separator'') \<and>
   generateToken example_env (Some (asc ''no-separator'')) 3600 =
     Inl (new_Error example_env msg_invalid_key) \<and>
   generateToken example_env (Some (asc ''key-id'' @ [ch CHR ''.''])) 3600 =
     Inl (new_Error example_env msg_invalid_key)"
proof -
  have a: "ch CHR ''.'' \<notin> set (asc ''key-id'')" "ch CHR ''.'' \<notin> set (asc ''signing-key'')"
    "asc ''signing-key'' \<noteq> []" "ch CHR ''.'' \<notin> set (asc ''no-separator'')"
    by (simp_all add: asc_def ch_def)
  show ?thesis
    using C8_minted_token [of "asc ''key-id''" "asc ''signing-key''" example_env 3600
        "asc ''no-separator''"] a
    by (simp add: example_env_def)
qed

text \<open>
  C9 (as amended).  How \<open>/api/completions\<close> and the first \<open>/api/chat\<close> report an error.
  Without \<open>stream: true\<close>, a failure to mint the credential or a rejected upstream
  call is answered with status 500 and the JSON body \<open>{error, detail}\<close>, to which
  \<open>stack\<close> is added exactly when \<open>NODE_ENV\<close> is \<open>development\<close>; \<open>detail\<close> (the error's
  message) is always there.  With \<open>stream: true\<close>, the same failures are written as one
  event-stream frame \<open>{error, detail}\<close> and the response is ended; an error of the
  upstream stream after streaming has begun ends the response with one more frame that
  carries \<open>error\<close> alone.  \<open>/api/generate\<close> answers a minting failure with status 500
  and \<open>{error, detail}\<close>, never with a stack.
\<close>

theorem C9_error_reporting:
  "(own body (asc ''stream'') \<noteq> Some (JBool True) \<and>
    generateToken rt (JIUTIAN_API_KEY rt) 3600 = Inl e \<longrightarrow>
      api_completions rt body =
        [Status 500,
         SendJson (JObj
           ([(asc ''error'', JStr msg_call_failed), (asc ''detail'', JStr (message e))] @
            (if NODE_ENV rt = Some (asc ''development'') then [(asc ''stack'', JStr (stack e))]
             else [])))] \<and>
      api_chat rt body = api_completions rt body) \<and>
   (own body (asc ''stream'') \<noteq> Some (JBool True) \<and>
    generateToken rt (JIUTIAN_API_KEY rt) 3600 = Inr tok \<and> reply_json rt = Inl e \<longrightarrow>
      api_completions rt body =
        [UpstreamPost completions_url (JObj body) tok False,
         Status 500,
         SendJson (JObj
           ([(asc ''error'', JStr msg_call_failed), (asc ''detail'', JStr (message e))] @
            (if NODE_ENV rt = Some (asc ''development'') then [(asc ''stack'', JStr (stack e))]
             else [])))] \<and>
      api_chat rt body =
        [UpstreamPost chat_url (JObj body) tok False,
         Status 500,
         SendJson (JObj
           ([(asc ''error'', JStr msg_call_failed), (asc ''detail'', JStr (message e))] @
            (if NODE_ENV rt = Some (asc ''development'') then [(asc ''stack'', JStr (stack e))]
             else [])))]) \<and>
   (own body (asc ''stream'') = Some (JBool True) \<and>
    generateToken rt (JIUTIAN_API_KEY rt) 3600 = Inl e \<longrightarrow>
      api_completions rt body =
        [Write (Sse (JObj
           [(asc ''error'', JStr msg_call_failed), (asc ''detail'', JStr (message e))])),
         EndWith None] \<and>
      api_chat rt body = api_completions rt body) \<and>
   (own body (asc ''stream'') = Some (JBool True) \<and>
    generateToken rt (JIUTIAN_API_KEY rt) 3600 = Inr tok \<and> reply_stream rt = Inl e \<longrightarrow>
      api_completions rt body =
        sse_headers @
        [UpstreamPost completions_url (JObj body) tok True,
         Write (Sse (JObj
           [(asc ''error'', JStr msg_call_failed), (asc ''detail'', JStr (message e))])),
         EndWith None] \<and>
      api_chat rt body =
        sse_headers @
        [UpstreamPost chat_url (JObj body) tok True,
         Write (Sse (JObj
           [(asc ''error'', JStr msg_call_failed), (asc ''detail'', JStr (message e))])),
         EndWith None]) \<and>
   (own body (asc ''stream'') = Some (JBool True) \<and>
    generateToken rt (JIUTIAN_API_KEY rt) 3600 = Inr tok \<and>
    reply_stream rt = Inr (evs @ [StreamError e]) \<longrightarrow>
      api_completions rt body =
        sse_headers @ [UpstreamPost completions_url (JObj body) tok True] @
        concat (map passthrough evs) @
        [EndWith (Some (Sse (JObj [(asc ''error'', JStr msg_stream_error)])))] \<and>
      api_chat rt body =
        sse_headers @ [UpstreamPost chat_url (JObj body) tok True] @
        concat (map passthrough evs) @
        [EndWith (Some (Sse (JObj [(asc ''error'', JStr msg_stream_error)])))]) \<and>
   (own body (asc ''model'') = Some (JStr (asc ''jiutian-lan'')) \<and>
    own body (asc ''options'') \<noteq> Some JNull \<and>
    generateToken rt (JIUTIAN_API_KEY rt) 3600 = Inl e \<longrightarrow>
      api_generate rt body =
        [Status 500,
         SendJson (JObj
           [(asc ''error'', JStr msg_generate_failed), (asc ''detail'', JStr (message e))])])"
proof (intro conjI impI)
qed (simp_all add: one_shot_failures streaming_failures call_failed_body
       stream_call_failed_def stream_error_frame_def generate_mint_failure)

theorem C9_witness:
  "own other_body (asc ''stream'') \<noteq> Some (JBool True) \<and>
   generateToken development_env (JIUTIAN_API_KEY development_env) 3600 =
     Inl \<lparr>message = msg_invalid_key, stack = asc ''Error''\<rparr> \<and>
   api_completions development_env other_body =
     [Status 500,
      SendJson (JObj
        [(asc ''error'', JStr msg_call_failed),
         (asc ''detail'', JStr msg_invalid_key),
         (asc ''stack'', JStr (asc ''Error''))])] \<and>
   own other_chat_body (asc ''stream'') = Some (JBool True) \<and>
   generateToken (example_env\<lparr>reply_stream := Inl example_error\<rparr>)
     (JIUTIAN_API_KEY (example_env\<lparr>reply_stream := Inl example_error\<rparr>)) 3600 =
     Inr example_token \<and>
   reply_stream (example_env\<lparr>reply_stream := Inl example_error\<rparr>) = Inl example_error \<and>
   api_chat (example_env\<lparr>reply_stream := Inl example_error\<rparr>) other_chat_body =
     sse_headers @
     [UpstreamPost chat_url (JObj other_chat_body) example_token True,
      Write (Sse (JObj
        [(asc ''error'', JStr msg_call_failed), (asc ''detail'', JStr (message example_error))])),
      EndWith None] \<and>
   reply_stream
     (example_env\<lparr>reply_stream :=
        Inr ([Data (delta_chunk ''2'') (asc ''t1'') (asc ''u1'')] @ [StreamError example_error])\<rparr>) =
     Inr ([Data (delta_chunk ''2'') (asc ''t1'') (asc ''u1'')] @ [StreamError example_error]) \<and>
   api_chat
     (example_env\<lparr>reply_stream :=
        Inr ([Data (delta_chunk ''2'') (asc ''t1'') (asc ''u1'')] @ [StreamError example_error])\<rparr>)
     other_chat_body =
     sse_headers @ [UpstreamPost chat_url (JObj other_chat_body) example_token True] @
     concat (map passthrough [Data (delta_chunk ''2'') (asc ''t1'') (asc ''u1'')]) @
     [EndWith (Some (Sse (JObj [(asc ''error'', JStr msg_stream_error)])))]"
proof -
  have a: "own other_body (asc ''stream'') \<noteq> Some (JBool True)"
    by (simp add: own_other_body)
  note b = development_env_facts(1)
  have one: "api_completions development_env other_body =
     [Status 500,
      SendJson (JObj
        [(asc ''error'', JStr msg_call_failed),
         (asc ''detail'', JStr msg_invalid_key),
         (asc ''stack'', JStr (asc ''Error''))])]"
    using C9_error_reporting [of other_body development_env
        "\<lparr>message = msg_invalid_key, stack = asc ''Error''\<rparr>"] a b
    by (simp add: development_env_facts(2))
  note c = own_other_body(2)
  note d = example_mint(1) [of "Inl example_error"]
  note e = example_env_fields(2) [of "Inl example_error"]
  have two: "api_chat (example_env\<lparr>reply_stream := Inl example_error\<rparr>) other_chat_body =
     sse_headers @
     [UpstreamPost chat_url (JObj other_chat_body) example_token True,
      Write (Sse (JObj
        [(asc ''error'', JStr msg_call_failed), (asc ''detail'', JStr (message example_error))])),
      EndWith None]"
    using C9_error_reporting [of other_chat_body "example_env\<lparr>reply_stream := Inl example_error\<rparr>"
        example_error example_token] c d e
    by blast
  note f = example_mint(1)
    [of "Inr ([Data (delta_chunk ''2'') (asc ''t1'') (asc ''u1'')] @ [StreamError example_error])"]
  note g = example_env_fields(2)
    [of "Inr ([Data (delta_chunk ''2'') (asc ''t1'') (asc ''u1'')] @ [StreamError example_error])"]
  have three: "api_chat
     (example_env\<lparr>reply_stream :=
        Inr ([Data (delta_chunk ''2'') (asc ''t1'') (asc ''u1'')] @ [StreamError example_error])\<rparr>)
     other_chat_body =
     sse_headers @ [UpstreamPost chat_url (JObj other_chat_body) example_token True] @
     concat (map passthrough [Data (delta_chunk ''2'') (asc ''t1'') (asc ''u1'')]) @
     [EndWith (Some (Sse (JObj [(asc ''error'', JStr msg_stream_error)])))]"
    using C9_error_reporting [of other_chat_body
        "example_env\<lparr>reply_stream :=
           Inr ([Data (delta_chunk ''2'') (asc ''t1'') (asc ''u1'')] @ [StreamError example_error])\<rparr>"
        example_error example_token "[Data (delta_chunk ''2'') (asc ''t1'') (asc ''u1'')]"] c f g
    by blast
  show ?thesis
    using a b one c d e two g three by blast
qed

theorem C9_counterexample:
  "NODE_ENV (example_env\<lparr>JIUTIAN_API_KEY := None\<rparr>) \<noteq> Some (asc ''development'') \<and>
   dispatch (example_env\<lparr>JIUTIAN_API_KEY := None\<rparr>)
     \<lparr>req_method = POST, req_path = ApiCompletions, req_body = other_body\<rparr> =
     [Status 500,
      SendJson (JObj
        [(asc ''error'', JStr msg_call_failed), (asc ''detail'', JStr msg_invalid_key)])] \<and>
   dispatch (example_env\<lparr>JIUTIAN_API_KEY := None\<rparr>)
     \<lparr>req_method = POST, req_path = ApiChat, req_body = other_chat_body\<rparr> =
     [Write (Sse (JObj
        [(asc ''error'', JStr msg_call_failed), (asc ''detail'', JStr msg_invalid_key)])),
      EndWith None]"
  using one_shot_failures(1) [OF _ no_key_facts(1), of other_body]
    streaming_failures(1) [OF own_other_body(2) no_key_facts(1)] no_key_facts(2)
  by (simp add: dispatch_routes own_other_body call_failed_body stream_call_failed_def)

text \<open>
  C10.  POST \<open>/api/completions\<close> and POST \<open>/api/chat\<close> never check the model.  The
  router hands POST \<open>/api/chat\<close> to the handler registered first; neither handler
  ever answers 404; and whenever the credential can be minted, each posts the request
  body as it came, whatever model it names, to the upstream provider.
\<close>

theorem C10_completions_and_first_chat_do_not_check_the_model:
  "dispatch rt \<lparr>req_method = POST, req_path = ApiCompletions, req_body = body\<rparr> =
     api_completions rt body \<and>
   dispatch rt \<lparr>req_method = POST, req_path = ApiChat, req_body = body\<rparr> = api_chat rt body \<and>
   Status 404 \<notin> set (api_completions rt body) \<and>
   Status 404 \<notin> set (api_chat rt body) \<and>
   (generateToken rt (JIUTIAN_API_KEY rt) 3600 = Inr tok \<longrightarrow>
      UpstreamPost completions_url (JObj body) tok (own body (asc ''stream'') = Some (JBool True))
        \<in> set (api_completions rt body) \<and>
      UpstreamPost chat_url (JObj body) tok (own body (asc ''stream'') = Some (JBool True))
        \<in> set (api_chat rt body))"
  by (auto simp: dispatch_routes api_completions_def api_chat_def handleStreamCompletions_def
        handleStreamChat_def call_failed_def stream_call_failed_def sse_headers_def
        no_404_in_passthrough split: sum.splits)

theorem C10_witness:
  "generateToken example_env (JIUTIAN_API_KEY example_env) 3600 = Inr example_token \<and>
   dispatch example_env \<lparr>req_method = POST, req_path = ApiCompletions, req_body = other_body\<rparr> =
     [UpstreamPost completions_url (JObj other_body) example_token False, SendJson JNull] \<and>
   Status 404 \<notin> set (api_completions example_env other_body) \<and>
   UpstreamPost chat_url (JObj other_chat_body) example_token True
     \<in> set (api_chat example_env other_chat_body)"
proof -
  have r: "reply_json example_env = Inr JNull"
    by (simp add: example_env_def)
  have d: "dispatch example_env
      \<lparr>req_method = POST, req_path = ApiCompletions, req_body = other_body\<rparr> =
     [UpstreamPost completions_url (JObj other_body) example_token False, SendJson JNull]"
    using C10_completions_and_first_chat_do_not_check_the_model
            [of example_env other_body example_token]
    by (simp add: api_completions_def own_other_body example_mint r)
  show ?thesis
    using d example_mint(3)
      C10_completions_and_first_chat_do_not_check_the_model
        [of example_env other_body example_token]
      C10_completions_and_first_chat_do_not_check_the_model
        [of example_env other_chat_body example_token]
    by (simp add: own_other_body)
qed

end
